theory Spec2Isabelle
  imports Complex_Main "HOL-Library.Multiset"
begin

section \<open>Python values used by mewinfo\<close>

text \<open>
  The program is a single Python module. Exceptions are values of \<open>py_error\<close>; a
  computation that may raise returns \<open>py_error + 'a\<close> with \<open>Inl\<close> for the exception.
  Text is a \<open>string\<close> holding the UTF-8 bytes of the Python \<open>str\<close>; the string
  operations the module uses (\<open>strip\<close>, \<open>split('_')\<close>, \<open>startswith('m')\<close>,
  \<open>lstrip('m')\<close>, \<open>join\<close>) look at ASCII characters only, so they act the same on
  the bytes.
\<close>

datatype py_error =
    FileNotFoundError | IsADirectoryError | NotADirectoryError | PermissionError
  | UnicodeDecodeError | ValueError | OverflowError | ZeroDivisionError
  | AttributeError | UnboundLocalError | SensorNotSupported

type_synonym 'a result = "py_error + 'a"

definition bind :: "'a result \<Rightarrow> ('a \<Rightarrow> 'b result) \<Rightarrow> 'b result" where
  "bind r f = (case r of Inl e \<Rightarrow> Inl e | Inr x \<Rightarrow> f x)"

subsection \<open>Strings\<close>

definition strip_with :: "(char \<Rightarrow> bool) \<Rightarrow> string \<Rightarrow> string" where
  "strip_with P s = rev (dropWhile P (rev (dropWhile P s)))"

text \<open>\<open>str.strip()\<close> removes whitespace at both ends: tab, line feed, vertical tab,
  form feed, carriage return, the separators 0x1C to 0x1F and the space (whitespace
  beyond ASCII is not modelled).\<close>

definition is_space :: "char \<Rightarrow> bool" where
  "is_space c = (let n = (of_char c :: nat) in (9 \<le> n \<and> n \<le> 13) \<or> (28 \<le> n \<and> n \<le> 31) \<or> n = 32)"

definition py_strip :: "string \<Rightarrow> string" where
  "py_strip s = strip_with is_space s"

text \<open>\<open>int()\<close> and \<open>float()\<close> skip the C whitespace only: 0x1C to 0x1F are not skipped.\<close>

definition is_c_space :: "char \<Rightarrow> bool" where
  "is_c_space c = (let n = (of_char c :: nat) in (9 \<le> n \<and> n \<le> 13) \<or> n = 32)"

definition is_digit :: "char \<Rightarrow> bool" where
  "is_digit c = (let n = (of_char c :: nat) in 48 \<le> n \<and> n \<le> 57)"

definition digit_val :: "char \<Rightarrow> int" where
  "digit_val c = of_char c - 48"

text \<open>A digit part is a non-empty run of digits in which single underscores may stand
  between two digits; \<open>digit_part\<close> returns the digits without the underscores.\<close>

fun digit_part :: "bool \<Rightarrow> string \<Rightarrow> string option" where
  "digit_part prev [] = (if prev then Some [] else None)"
| "digit_part prev (c # cs) =
     (if c = CHR ''_'' then (if prev \<and> cs \<noteq> [] then digit_part False cs else None)
      else if is_digit c then map_option ((#) c) (digit_part True cs)
      else None)"

fun digits_int :: "int \<Rightarrow> string \<Rightarrow> int" where
  "digits_int acc [] = acc"
| "digits_int acc (c # cs) = digits_int (10 * acc + digit_val c) cs"

definition split_sign :: "string \<Rightarrow> bool \<times> string" where
  "split_sign s = (case s of
       [] \<Rightarrow> (False, [])
     | c # r \<Rightarrow> if c = CHR ''-'' then (True, r) else if c = CHR ''+'' then (False, r) else (False, s))"

text \<open>\<open>int(s)\<close> for decimal text: optional whitespace, an optional sign, a digit part.
  Anything else is a \<open>ValueError\<close> (digits beyond ASCII and the interpreter's
  configurable limit on the number of digits are not modelled).\<close>

definition py_int :: "string \<Rightarrow> int result" where
  "py_int s = (case split_sign (strip_with is_c_space s) of (neg, body) \<Rightarrow>
      (case digit_part False body of
         None \<Rightarrow> Inl ValueError
       | Some ds \<Rightarrow> Inr (if neg then - digits_int 0 ds else digits_int 0 ds)))"

text \<open>The decimal digits of \<open>0 \<le> n\<close>.\<close>

function digits :: "int \<Rightarrow> string" where
  "digits n = (if n < 10 then [char_of (48 + n)] else digits (n div 10) @ [char_of (48 + n mod 10)])"
  by pat_completeness auto
termination
  by (relation "measure nat") auto

declare digits.simps [simp del]

definition int_str :: "int \<Rightarrow> string" where
  "int_str i = (if i < 0 then CHR ''-'' # digits (- i) else digits i)"

text \<open>\<open>sep.join(parts)\<close>\<close>

fun join :: "string \<Rightarrow> string list \<Rightarrow> string" where
  "join sep [] = []"
| "join sep [x] = x"
| "join sep (x # y # ys) = x @ sep @ join sep (y # ys)"

definition lower_char :: "char \<Rightarrow> char" where
  "lower_char c = (let n = (of_char c :: nat) in if 65 \<le> n \<and> n \<le> 90 then char_of (n + 32) else c)"

subsection \<open>Floats\<close>

text \<open>
  A Python \<open>float\<close> is an IEEE 754 binary64 number: a sign and a magnitude
  \<open>m * 2 ^ e\<close> with \<open>m < 2 ^ 53\<close> and \<open>- 1074 \<le> e\<close>, below \<open>2 ^ 1024\<close>; an infinity
  with a sign; or not-a-number. The magnitude is kept as the rational it denotes. Every
  operation returns the exact result rounded to the nearest such magnitude, ties to the
  even mantissa.
\<close>

datatype pyfloat = Finite bool rat | Infinite bool | NaN

function floor_log :: "int \<Rightarrow> int \<Rightarrow> int" where
  "floor_log b n = (if b < 2 \<or> n < b then 0 else 1 + floor_log b (n div b))"
  by pat_completeness auto
termination
  by (relation "measure (\<lambda>(b, n). nat n)") (auto simp: int_div_less_self)

declare floor_log.simps [simp del]

text \<open>Powers with an integer exponent, by repeated squaring:
  \<open>ipow b k = b ^ nat k\<close>.\<close>

function ipow :: "rat \<Rightarrow> int \<Rightarrow> rat" where
  "ipow b k = (if k \<le> 0 then 1
               else if even k then ipow (b * b) (k div 2)
               else b * ipow (b * b) (k div 2))"
  by pat_completeness auto
termination
  by (relation "measure (\<lambda>(b, k). nat k)") auto

declare ipow.simps [simp del]

definition pow_int :: "rat \<Rightarrow> int \<Rightarrow> rat" where
  "pow_int b k = (if 0 \<le> k then ipow b k else 1 / ipow b (- k))"

text \<open>For \<open>0 < q\<close>: the \<open>k\<close> with \<open>b ^ k \<le> q < b ^ (k + 1)\<close>.\<close>

definition rat_floor_log :: "int \<Rightarrow> rat \<Rightarrow> int" where
  "rat_floor_log b q = (case quotient_of q of (p, d) \<Rightarrow>
     (let k = floor_log b p - floor_log b d
      in if pow_int (of_int b) k \<le> q then k else k - 1))"

definition round_half_even :: "rat \<Rightarrow> int" where
  "round_half_even x = (let f = \<lfloor>x\<rfloor>; r = x - of_int f
     in if r < 1 / 2 then f else if 1 / 2 < r then f + 1 else if even f then f else f + 1)"

text \<open>The nearest binary64 magnitude of a rational \<open>0 \<le> q\<close>; it reaches
  \<open>2 ^ 1024\<close> exactly when \<open>q\<close> is beyond the range.\<close>

definition round_binary64 :: "rat \<Rightarrow> rat" where
  "round_binary64 q = (if q \<le> 0 then 0 else
     (let e = max (rat_floor_log 2 q - 52) (- 1074)
      in of_int (round_half_even (q / pow_int 2 e)) * pow_int 2 e))"

definition float_of_rat :: "bool \<Rightarrow> rat \<Rightarrow> pyfloat" where
  "float_of_rat s q = (let r = round_binary64 q in if pow_int 2 1024 \<le> r then Infinite s else Finite s r)"

text \<open>An \<open>int\<close> that meets a \<open>float\<close> in arithmetic is converted first;
  \<open>OverflowError: int too large to convert to float\<close>.\<close>

definition float_of_int :: "int \<Rightarrow> pyfloat result" where
  "float_of_int i = (let r = round_binary64 (of_int \<bar>i\<bar>)
     in if pow_int 2 1024 \<le> r then Inl OverflowError else Inr (Finite (i < 0) r))"

fun float_mul :: "pyfloat \<Rightarrow> pyfloat \<Rightarrow> pyfloat" where
  "float_mul NaN y = NaN"
| "float_mul x NaN = NaN"
| "float_mul (Infinite s) (Infinite t) = Infinite (s \<noteq> t)"
| "float_mul (Infinite s) (Finite t b) = (if b = 0 then NaN else Infinite (s \<noteq> t))"
| "float_mul (Finite s a) (Infinite t) = (if a = 0 then NaN else Infinite (s \<noteq> t))"
| "float_mul (Finite s a) (Finite t b) = float_of_rat (s \<noteq> t) (a * b)"

fun float_div :: "pyfloat \<Rightarrow> pyfloat \<Rightarrow> pyfloat result" where
  "float_div x (Finite t b) =
     (if b = 0 then Inl ZeroDivisionError
      else case x of
          NaN \<Rightarrow> Inr NaN
        | Infinite s \<Rightarrow> Inr (Infinite (s \<noteq> t))
        | Finite s a \<Rightarrow> Inr (float_of_rat (s \<noteq> t) (a / b)))"
| "float_div x NaN = Inr NaN"
| "float_div NaN (Infinite t) = Inr NaN"
| "float_div (Infinite s) (Infinite t) = Inr NaN"
| "float_div (Finite s a) (Infinite t) = Inr (Finite (s \<noteq> t) 0)"

subsection \<open>Numbers: \<open>int | float\<close>\<close>

datatype pynum = PyInt int | PyFloat pyfloat

fun is_int :: "pynum \<Rightarrow> bool" where
  "is_int (PyInt i) = True"
| "is_int (PyFloat f) = False"

fun is_float :: "pynum \<Rightarrow> bool" where
  "is_float (PyInt i) = False"
| "is_float (PyFloat f) = True"

text \<open>\<open>a * b\<close>\<close>

fun py_mul :: "pynum \<Rightarrow> pynum \<Rightarrow> pynum result" where
  "py_mul (PyInt a) (PyInt b) = Inr (PyInt (a * b))"
| "py_mul (PyInt a) (PyFloat y) = bind (float_of_int a) (\<lambda>x. Inr (PyFloat (float_mul x y)))"
| "py_mul (PyFloat x) (PyInt b) = bind (float_of_int b) (\<lambda>y. Inr (PyFloat (float_mul x y)))"
| "py_mul (PyFloat x) (PyFloat y) = Inr (PyFloat (float_mul x y))"

text \<open>\<open>a / b\<close>: true division. Two ints give the correctly rounded quotient
  (\<open>OverflowError: integer division result too large for a float\<close>).\<close>

fun py_truediv :: "pynum \<Rightarrow> pynum \<Rightarrow> pynum result" where
  "py_truediv (PyInt a) (PyInt b) =
     (if b = 0 then Inl ZeroDivisionError
      else (let r = round_binary64 (of_int \<bar>a\<bar> / of_int \<bar>b\<bar>)
            in if pow_int 2 1024 \<le> r then Inl OverflowError
               else Inr (PyFloat (Finite ((a < 0) \<noteq> (b < 0)) r))))"
| "py_truediv (PyInt a) (PyFloat y) = bind (float_of_int a) (\<lambda>x. map_sum id PyFloat (float_div x y))"
| "py_truediv (PyFloat x) (PyInt b) = bind (float_of_int b) (\<lambda>y. map_sum id PyFloat (float_div x y))"
| "py_truediv (PyFloat x) (PyFloat y) = map_sum id PyFloat (float_div x y)"

text \<open>\<open>a == b\<close> on numbers compares the exact values; not-a-number equals nothing.\<close>

fun float_val :: "pyfloat \<Rightarrow> rat option" where
  "float_val (Finite s a) = Some (if s then - a else a)"
| "float_val (Infinite s) = None"
| "float_val NaN = None"

fun float_eq :: "pyfloat \<Rightarrow> pyfloat \<Rightarrow> bool" where
  "float_eq (Finite s a) y = (float_val y = Some (if s then - a else a))"
| "float_eq (Infinite s) y = (y = Infinite s)"
| "float_eq NaN y = False"

fun py_eq :: "pynum \<Rightarrow> pynum \<Rightarrow> bool" where
  "py_eq (PyInt a) (PyInt b) = (a = b)"
| "py_eq (PyInt a) (PyFloat y) = (float_val y = Some (of_int a))"
| "py_eq (PyFloat x) (PyInt b) = (float_val x = Some (of_int b))"
| "py_eq (PyFloat x) (PyFloat y) = float_eq x y"

subsection \<open>\<open>float(s)\<close>\<close>

definition opt_digit_part :: "string \<Rightarrow> string option" where
  "opt_digit_part s = (if s = [] then Some [] else digit_part False s)"

definition exponent_part :: "string \<Rightarrow> int option" where
  "exponent_part rest = (case rest of
       [] \<Rightarrow> Some 0
     | e # r \<Rightarrow> (case split_sign r of (neg, ds) \<Rightarrow>
         map_option (\<lambda>d. if neg then - digits_int 0 d else digits_int 0 d)
           (digit_part False ds)))"

definition decimal_rat :: "string \<Rightarrow> rat option" where
  "decimal_rat body =
     (let no_e = (\<lambda>c. c \<noteq> CHR ''e'' \<and> c \<noteq> CHR ''E'');
          mant = takeWhile no_e body;
          ip = takeWhile (\<lambda>c. c \<noteq> CHR ''.'') mant;
          fp = drop 1 (dropWhile (\<lambda>c. c \<noteq> CHR ''.'') mant)
      in case (opt_digit_part ip, opt_digit_part fp, exponent_part (dropWhile no_e body)) of
           (Some i, Some f, Some e) \<Rightarrow>
             if i @ f = [] then None
             else Some (of_int (digits_int 0 (i @ f)) * pow_int 10 (e - int (length f)))
         | _ \<Rightarrow> None)"

text \<open>Decimal text with an optional fraction and exponent, \<open>inf\<close>, \<open>infinity\<close> and
  \<open>nan\<close> in any case, each with an optional sign; a value beyond the range is an
  infinity, not an error.\<close>

definition py_float :: "string \<Rightarrow> pyfloat result" where
  "py_float s = (case split_sign (strip_with is_c_space s) of (neg, body) \<Rightarrow>
     if map lower_char body = ''inf'' \<or> map lower_char body = ''infinity'' then Inr (Infinite neg)
     else if map lower_char body = ''nan'' then Inr NaN
     else (case decimal_rat body of
             None \<Rightarrow> Inl ValueError
           | Some q \<Rightarrow> Inr (float_of_rat neg q)))"

subsection \<open>\<open>str(x)\<close> of a number\<close>

text \<open>
  \<open>repr\<close> of a float is the shortest decimal that reads back as the same float (the
  nearest one when there are several), in positional notation when the decimal point
  falls after at most 16 digits and before at most 4 zeros, with an exponent
  otherwise.
\<close>

text \<open>\<open>shortest_digits m d k\<close>: the magnitude \<open>m\<close> lies in \<open>[10 ^ (d - 1), 10 ^ d)\<close>;
  try \<open>k\<close> significant digits, then more. Seventeen digits always read back.\<close>

function shortest_digits :: "rat \<Rightarrow> int \<Rightarrow> int \<Rightarrow> int \<times> int" where
  "shortest_digits m d k =
     (let x = d - k;
          y = m / pow_int 10 x;
          lo = \<lfloor>y\<rfloor>;
          hi = lo + 1;
          oklo = (round_binary64 (of_int lo * pow_int 10 x) = m);
          okhi = (round_binary64 (of_int hi * pow_int 10 x) = m)
      in if 17 \<le> k then (round_half_even y, x)
         else if oklo \<and> okhi then
           (if y - of_int lo < of_int hi - y \<or> (y - of_int lo = of_int hi - y \<and> even lo)
            then (lo, x) else (hi, x))
         else if oklo then (lo, x)
         else if okhi then (hi, x)
         else shortest_digits m d (k + 1))"
  by pat_completeness auto
termination
  by (relation "measure (\<lambda>(m, d, k). nat (17 - k))") auto

declare shortest_digits.simps [simp del]

definition exponent_str :: "int \<Rightarrow> string" where
  "exponent_str e = (if e < 0 then ''-'' else ''+'')
     @ (if \<bar>e\<bar> < 10 then ''0'' else []) @ digits \<bar>e\<bar>"

definition repr_mag :: "rat \<Rightarrow> string" where
  "repr_mag m = (if m \<le> 0 then ''0.0'' else
     (case shortest_digits m (rat_floor_log 10 m + 1) 1 of (n, x) \<Rightarrow>
        (let ds0 = digits n;
             decpt = x + int (length ds0);
             ds = rev (dropWhile (\<lambda>c. c = CHR ''0'') (rev ds0))
         in if - 4 < decpt \<and> decpt \<le> 16 then
              (if decpt \<le> 0 then ''0.'' @ replicate (nat (- decpt)) CHR ''0'' @ ds
               else if int (length ds) \<le> decpt
                 then ds @ replicate (nat decpt - length ds) CHR ''0'' @ ''.0''
               else take (nat decpt) ds @ ''.'' @ drop (nat decpt) ds)
            else take 1 ds @ (if drop 1 ds = [] then [] else ''.'' @ drop 1 ds)
                 @ ''e'' @ exponent_str (decpt - 1))))"

fun float_repr :: "pyfloat \<Rightarrow> string" where
  "float_repr (Finite s m) = (if s then ''-'' else []) @ repr_mag m"
| "float_repr (Infinite s) = (if s then ''-inf'' else ''inf'')"
| "float_repr NaN = ''nan''"

fun py_str :: "pynum \<Rightarrow> string" where
  "py_str (PyInt i) = int_str i"
| "py_str (PyFloat x) = float_repr x"

section \<open>The file system\<close>

text \<open>
  The program only reads. A state of the file system is what the three \<open>pathlib\<close>
  operations of the module observe: \<open>read_text\<close> of a path (the text, or the
  exception of the failed read), \<open>iterdir\<close> of a path (the entry names in the order
  the system lists them), and \<open>resolve\<close> (the path with every symbolic link
  followed). A path is absolute: the list of its components below the root.
\<close>

type_synonym path = "string list"

record filesystem =
  read_text :: "path \<Rightarrow> string result"
  iterdir :: "path \<Rightarrow> string list result"
  resolve :: "path \<Rightarrow> path"

text \<open>\<open>p / c\<close>, \<open>p.name\<close>, \<open>p.parent\<close> and \<open>p.parents\<close> (nearest ancestor first).\<close>

definition child :: "path \<Rightarrow> string \<Rightarrow> path" where
  "child p c = p @ [c]"

definition path_name :: "path \<Rightarrow> string" where
  "path_name p = (if p = [] then [] else last p)"

definition parent :: "path \<Rightarrow> path" where
  "parent p = butlast p"

definition parents :: "path \<Rightarrow> path list" where
  "parents p = map (\<lambda>n. take n p) (rev [0..<length p])"

text \<open>A pattern of literal characters and \<open>*\<close>, which stands for any run of
  characters; the module's patterns use nothing else.\<close>

fun glob_match :: "string \<Rightarrow> string \<Rightarrow> bool" where
  "glob_match [] [] = True"
| "glob_match [] (c # cs) = False"
| "glob_match (p # ps) [] = (p = CHR ''*'' \<and> glob_match ps [])"
| "glob_match (p # ps) (c # cs) =
     (if p = CHR ''*'' then glob_match ps (c # cs) \<or> glob_match (p # ps) cs
      else p = c \<and> glob_match ps cs)"

text \<open>\<open>p.glob(pattern)\<close>: the matching entries, in listing order; nothing when \<open>p\<close>
  cannot be listed.\<close>

definition glob :: "filesystem \<Rightarrow> path \<Rightarrow> string \<Rightarrow> path list" where
  "glob fs p pat = (case iterdir fs p of
       Inl e \<Rightarrow> []
     | Inr names \<Rightarrow> map (child p) (filter (glob_match pat) names))"

section \<open>\<open>adc_value\<close>\<close>

text \<open>
  Lines 24 to 36. The raw file is mandatory; \<open>FileNotFoundError\<close> of the offset and of
  the scale file is caught, every other exception propagates.
\<close>

definition adc_value :: "filesystem \<Rightarrow> path \<Rightarrow> string \<Rightarrow> pynum result" where
  "adc_value fs iio item =
     bind (read_text fs (child iio (item @ ''_raw''))) (\<lambda>t.
     bind (py_int (py_strip t)) (\<lambda>raw0.
     bind (case read_text fs (child iio (item @ ''_offset'')) of
             Inl e \<Rightarrow> if e = FileNotFoundError then Inr raw0 else Inl e
           | Inr t \<Rightarrow> bind (py_int (py_strip t)) (\<lambda>offset. Inr (raw0 + offset))) (\<lambda>raw.
     case read_text fs (child iio (item @ ''_scale'')) of
       Inl e \<Rightarrow> if e = FileNotFoundError then Inr (PyInt raw) else Inl e
     | Inr t \<Rightarrow> bind (py_float (py_strip t)) (\<lambda>scale. py_mul (PyInt raw) (PyFloat scale)))))"

section \<open>Sensor kinds and values\<close>

datatype SensorKind =
  VOLTAGE | FAN | FAN_PWM | TEMPERATURE | CURRENT | POWER | ENERGY | HUMIDITY | ALARM

text \<open>The members in definition order, as \<open>for kind in SensorKind\<close> visits them.\<close>

definition SensorKind_members :: "SensorKind list" where
  "SensorKind_members =
     [VOLTAGE, FAN, FAN_PWM, TEMPERATURE, CURRENT, POWER, ENERGY, HUMIDITY, ALARM]"

fun prefix :: "SensorKind \<Rightarrow> string" where
  "prefix VOLTAGE = ''in''"
| "prefix FAN = ''fan''"
| "prefix FAN_PWM = ''pwm''"
| "prefix TEMPERATURE = ''temp''"
| "prefix CURRENT = ''curr''"
| "prefix POWER = ''power''"
| "prefix ENERGY = ''energy''"
| "prefix HUMIDITY = ''humidity''"
| "prefix ALARM = ''alarm''"

text \<open>The units. The degree sign and the micro sign are the two bytes of their UTF-8
  encoding (U+00B0 and U+00B5).\<close>

fun unit :: "SensorKind \<Rightarrow> string option" where
  "unit VOLTAGE = Some ''mV''"
| "unit FAN = None"
| "unit FAN_PWM = None"
| "unit TEMPERATURE = Some [CHR ''m'', CHR 0xC2, CHR 0xB0, CHR ''C'']"
| "unit CURRENT = Some ''mA''"
| "unit POWER = Some [CHR 0xC2, CHR 0xB5, CHR ''W'']"
| "unit ENERGY = Some [CHR 0xC2, CHR 0xB5, CHR ''J'']"
| "unit HUMIDITY = None"
| "unit ALARM = None"

fun kind_name :: "SensorKind \<Rightarrow> string" where
  "kind_name VOLTAGE = ''VOLTAGE''"
| "kind_name FAN = ''FAN''"
| "kind_name FAN_PWM = ''FAN_PWM''"
| "kind_name TEMPERATURE = ''TEMPERATURE''"
| "kind_name CURRENT = ''CURRENT''"
| "kind_name POWER = ''POWER''"
| "kind_name ENERGY = ''ENERGY''"
| "kind_name HUMIDITY = ''HUMIDITY''"
| "kind_name ALARM = ''ALARM''"

definition lower :: "string \<Rightarrow> string" where
  "lower s = map lower_char s"

text \<open>The dataclass \<open>SensorValue\<close>; its field \<open>value\<close> is written \<open>val\<close> here.\<close>

record SensorValue =
  label :: "string option"
  kind :: SensorKind
  val :: pynum

text \<open>The structured form: what \<open>json()\<close> returns, a dict being the list of its items in
  insertion order.\<close>

datatype json = JStr string | JNum pynum | JList "json list" | JDict "(string \<times> json) list"

text \<open>\<open>SensorValue.json\<close>, lines 220 to 229. \<open>if self.kind.unit\<close> and \<open>if self.label\<close>
  are false for \<open>None\<close> and for the empty string.\<close>

definition SensorValue_json :: "SensorValue \<Rightarrow> json" where
  "SensorValue_json sv = JDict
     ([(''type'', JStr (lower (kind_name (kind sv)))), (''value'', JNum (val sv))]
      @ (case unit (kind sv) of
           None \<Rightarrow> []
         | Some u \<Rightarrow> if u = [] then [] else [(''unit'', JStr u)])
      @ (case label sv of
           None \<Rightarrow> []
         | Some l \<Rightarrow> if l = [] then [] else [(''label'', JStr l)]))"

text \<open>\<open>SensorValue.__str__\<close>, lines 231 to 237. \<open>value / 1000\<close> can raise
  \<open>OverflowError\<close>; \<open>x or y\<close> is \<open>y\<close> when \<open>x\<close> is \<open>None\<close> or empty.\<close>

definition startswith :: "string \<Rightarrow> string \<Rightarrow> bool" where
  "startswith s p = (take (length p) s = p)"

definition lstrip :: "string \<Rightarrow> char \<Rightarrow> string" where
  "lstrip s c = dropWhile (\<lambda>x. x = c) s"

definition label_or_kind :: "SensorValue \<Rightarrow> string" where
  "label_or_kind sv = (case label sv of
       None \<Rightarrow> lower (kind_name (kind sv))
     | Some l \<Rightarrow> if l = [] then lower (kind_name (kind sv)) else l)"

definition SensorValue_str :: "SensorValue \<Rightarrow> string result" where
  "SensorValue_str sv =
     bind (case unit (kind sv) of
             None \<Rightarrow> Inr (val sv, [])
           | Some u \<Rightarrow>
               if startswith u ''m''
               then bind (py_truediv (val sv) (PyInt 1000)) (\<lambda>v. Inr (v, lstrip u CHR ''m''))
               else Inr (val sv, u))
       (\<lambda>(v, u). Inr (label_or_kind sv @ '': '' @ py_str v @ '' '' @ u))"

text \<open>The \<open>__eq__\<close> that \<open>@dataclass\<close> generates compares the field tuples; two
  distinct values that hold not-a-number are unequal.\<close>

definition SensorValue_eq :: "SensorValue \<Rightarrow> SensorValue \<Rightarrow> bool" where
  "SensorValue_eq x y = (label x = label y \<and> kind x = kind y \<and> py_eq (val x) (val y))"

section \<open>Sensors\<close>

text \<open>A \<open>Sensor\<close> object: its class, and the two dataclass fields.\<close>

datatype sensor_class = SensorClass | Axp20BatteryClass | RpiVoltageClass

record Sensor =
  cls :: sensor_class
  name :: string
  "values" :: "SensorValue list"

text \<open>The elements of a list in turn, stopping at the first exception.\<close>

fun map_result :: "('a \<Rightarrow> 'b result) \<Rightarrow> 'a list \<Rightarrow> 'b list result" where
  "map_result f [] = Inr []"
| "map_result f (x # xs) = bind (f x) (\<lambda>y. bind (map_result f xs) (\<lambda>ys. Inr (y # ys)))"

subsection \<open>\<open>Sensor._parse\<close>, lines 250 to 273\<close>

text \<open>\<open>v.name.split('_')[0]\<close>\<close>

definition channel_id :: "string \<Rightarrow> string" where
  "channel_id n = takeWhile (\<lambda>c. c \<noteq> CHR ''_'') n"

text \<open>Lines 258 to 261: the label, \<open>None\<close> when the file is missing.\<close>

definition channel_label :: "filesystem \<Rightarrow> path \<Rightarrow> string \<Rightarrow> string option result" where
  "channel_label fs hwmon s = (case read_text fs (child hwmon (s @ ''_label'')) of
       Inl e \<Rightarrow> if e = FileNotFoundError then Inr None else Inl e
     | Inr t \<Rightarrow> Inr (Some (py_strip t)))"

text \<open>Lines 262 to 268: the number of the channel whose input file is \<open>v\<close>. No scale
  file is read.\<close>

definition channel_value :: "filesystem \<Rightarrow> path \<Rightarrow> path \<Rightarrow> string \<Rightarrow> pynum result" where
  "channel_value fs hwmon v s =
     bind (read_text fs v) (\<lambda>t.
     bind (py_int t) (\<lambda>value0.
     case read_text fs (child hwmon (s @ ''_offset'')) of
       Inl e \<Rightarrow> if e = FileNotFoundError then Inr (PyInt value0) else Inl e
     | Inr t \<Rightarrow> bind (py_int t) (\<lambda>offset. Inr (PyInt (value0 + offset)))))"

text \<open>The body of the inner loop, lines 257 to 269, and the two loops.\<close>

definition parse_channel :: "filesystem \<Rightarrow> path \<Rightarrow> SensorKind \<Rightarrow> path \<Rightarrow> SensorValue result" where
  "parse_channel fs hwmon k v =
     (let s = channel_id (path_name v) in
      bind (channel_label fs hwmon s) (\<lambda>l.
      bind (channel_value fs hwmon v s) (\<lambda>x.
      Inr \<lparr>label = l, kind = k, val = x\<rparr>)))"

fun parse_channels ::
  "filesystem \<Rightarrow> path \<Rightarrow> SensorKind \<Rightarrow> path list \<Rightarrow> SensorValue list \<Rightarrow> SensorValue list result"
where
  "parse_channels fs hwmon k [] vals = Inr vals"
| "parse_channels fs hwmon k (v # vs) vals =
     bind (parse_channel fs hwmon k v) (\<lambda>sv. parse_channels fs hwmon k vs (vals @ [sv]))"

fun parse_kinds ::
  "filesystem \<Rightarrow> path \<Rightarrow> SensorKind list \<Rightarrow> SensorValue list \<Rightarrow> SensorValue list result"
where
  "parse_kinds fs hwmon [] vals = Inr vals"
| "parse_kinds fs hwmon (k # ks) vals =
     bind (parse_channels fs hwmon k (glob fs hwmon (prefix k @ ''*_input'')) vals)
       (\<lambda>vals'. parse_kinds fs hwmon ks vals')"

text \<open>Lines 270 to 272: an alarm is labelled with its file name.\<close>

fun parse_alarms :: "filesystem \<Rightarrow> path list \<Rightarrow> SensorValue list \<Rightarrow> SensorValue list result" where
  "parse_alarms fs [] vals = Inr vals"
| "parse_alarms fs (a # as) vals =
     bind (read_text fs a) (\<lambda>t.
     bind (py_int t) (\<lambda>x.
     parse_alarms fs as (vals @ [\<lparr>label = Some (path_name a), kind = ALARM, val = PyInt x\<rparr>])))"

text \<open>The class method \<open>_parse\<close>; \<open>c\<close> is the class it is called on.\<close>

definition Sensor__parse :: "sensor_class \<Rightarrow> filesystem \<Rightarrow> path \<Rightarrow> string option \<Rightarrow> Sensor result" where
  "Sensor__parse c fs hwmon name_arg =
     bind (case name_arg of
             None \<Rightarrow> bind (read_text fs (child hwmon ''name'')) (\<lambda>t. Inr (py_strip t))
           | Some n \<Rightarrow> Inr n) (\<lambda>n.
     bind (parse_kinds fs hwmon SensorKind_members []) (\<lambda>vals.
     bind (parse_alarms fs (glob fs hwmon ''*_alarm'') vals) (\<lambda>vals'.
     Inr \<lparr>cls = c, name = n, values = vals'\<rparr>)))"

subsection \<open>\<open>Sensor.parse\<close>, lines 275 to 286\<close>

text \<open>
  The class attribute \<open>_SPECIAL\<close> maps a driver name to the class whose \<open>extend\<close> is
  called; it is passed explicitly. \<open>SensorNotSupported\<close> from \<open>extend\<close> is caught and the
  generic sensor returned; any other exception propagates.
\<close>

type_synonym extension = "filesystem \<Rightarrow> path \<Rightarrow> Sensor \<Rightarrow> Sensor result"

definition Sensor_parse :: "(string \<rightharpoonup> extension) \<Rightarrow> filesystem \<Rightarrow> path \<Rightarrow> Sensor result" where
  "Sensor_parse special fs hwmon =
     bind (read_text fs (child hwmon ''name'')) (\<lambda>t.
     (let n = py_strip t in
      bind (Sensor__parse SensorClass fs hwmon (Some n)) (\<lambda>sensor.
      case special n of
        None \<Rightarrow> Inr sensor
      | Some ext \<Rightarrow>
          (case ext fs hwmon sensor of
             Inl e \<Rightarrow> if e = SensorNotSupported then Inr sensor else Inl e
           | Inr extended \<Rightarrow> Inr extended))))"

text \<open>\<open>Sensor.json\<close> and \<open>Sensor.__str__\<close>, lines 288 to 296.\<close>

definition Sensor_json :: "Sensor \<Rightarrow> json" where
  "Sensor_json s = JDict
     [(''name'', JStr (name s)), (''values'', JList (map SensorValue_json (values s)))]"

definition Sensor_str :: "Sensor \<Rightarrow> string result" where
  "Sensor_str s =
     bind (map_result SensorValue_str (values s)) (\<lambda>lines.
     Inr (''Sensor '' @ name s @ [CHR '':'', CHR 0x0A, CHR '' '', CHR '' '']
          @ join [CHR 0x0A, CHR '' '', CHR '' ''] lines))"

subsection \<open>\<open>Axp20Battery.extend\<close>, lines 311 to 328\<close>

definition POWER_SUPPLY :: string where
  "POWER_SUPPLY = ''axp20x-battery-power-supply''"

definition DRIVER :: string where
  "DRIVER = ''axp20x-rsb''"

definition ADC :: string where
  "ADC = ''axp813-adc''"

text \<open>
  Both \<open>raise\<close> statements are \<open>raise SensorNotSupported(cls.name, base.name)\<close>. The
  arguments are evaluated first, and \<open>cls.name\<close> is an attribute of the class
  \<open>Axp20Battery\<close>: \<open>name\<close> is a dataclass field without a default, which \<open>@dataclass\<close>
  does not store on the class, and no base class defines it. The lookup raises
  \<open>AttributeError\<close>, so the \<open>SensorNotSupported\<close> is never constructed.
\<close>

definition cls_name :: "string result" where
  "cls_name = Inl AttributeError"

definition raise_not_supported :: "Sensor \<Rightarrow> 'a result" where
  "raise_not_supported base = bind cls_name (\<lambda>a. Inl SensorNotSupported)"

text \<open>Lines 314 to 317: the loop has no \<open>break\<close>, so the last match in \<open>parents\<close>
  (the one nearest the root) stays in \<open>battery\<close>.\<close>

fun find_battery :: "path option \<Rightarrow> path list \<Rightarrow> path option" where
  "find_battery battery [] = battery"
| "find_battery battery (b # bs) =
     find_battery (if path_name b = POWER_SUPPLY then Some b else battery) bs"

definition Axp20Battery_extend :: extension where
  "Axp20Battery_extend fs hwmon0 base =
     (let hwmon = resolve fs hwmon0 in
      case find_battery None (parents hwmon) of
        None \<Rightarrow> raise_not_supported base
      | Some battery \<Rightarrow>
          if path_name (resolve fs (child (parent battery) ''driver'')) \<noteq> DRIVER
          then raise_not_supported base
          else (case glob fs (child (parent battery) ADC) ''iio:device*'' of
                  [] \<Rightarrow> raise_not_supported base
                | iio # others \<Rightarrow>
                    bind (adc_value fs iio ''in_temp'') (\<lambda>x.
                    Inr \<lparr>cls = Axp20BatteryClass, name = name base,
                         values = values base @ [\<lparr>label = None, kind = TEMPERATURE, val = x\<rparr>]\<rparr>)))"

subsection \<open>\<open>RpiVoltage.extend\<close>, lines 334 to 342\<close>

text \<open>The loop of lines 336 to 338: the state is the binding of \<open>i, a\<close>, unbound
  (\<open>None\<close>) before the first iteration. Without a match the loop ends with the last
  element bound.\<close>

fun find_alarm ::
  "(nat \<times> SensorValue) option \<Rightarrow> nat \<Rightarrow> SensorValue list \<Rightarrow> (nat \<times> SensorValue) option"
where
  "find_alarm bound i [] = bound"
| "find_alarm bound i (a # rest) =
     (if label a = Some ''in0_lcrit_alarm'' then Some (i, a)
      else find_alarm (Some (i, a)) (Suc i) rest)"

text \<open>\<open>base.values.remove(a)\<close>, where \<open>a\<close> is the element at index \<open>i\<close>: the first element
  that is \<open>a\<close> itself or equal to it goes.\<close>

fun list_remove :: "SensorValue \<Rightarrow> nat \<Rightarrow> SensorValue list \<Rightarrow> SensorValue list result" where
  "list_remove a i [] = Inl ValueError"
| "list_remove a i (x # xs) =
     (if i = 0 \<or> SensorValue_eq x a then Inr xs
      else bind (list_remove a (i - 1) xs) (\<lambda>ys. Inr (x # ys)))"

definition RpiVoltage_extend :: extension where
  "RpiVoltage_extend fs hwmon base =
     (case find_alarm None 0 (values base) of
        None \<Rightarrow> Inl UnboundLocalError
      | Some (i, a) \<Rightarrow>
          (let alarm = a\<lparr>label := Some ''low voltage alarm''\<rparr> in
           bind (list_remove a i (values base)) (\<lambda>vals.
           Inr \<lparr>cls = RpiVoltageClass, name = name base, values = vals @ [alarm]\<rparr>)))"

text \<open>Lines 345 and 346.\<close>

definition SPECIAL :: "string \<rightharpoonup> extension" where
  "SPECIAL = [''axp20x_battery'' \<mapsto> Axp20Battery_extend, ''rpi_volt'' \<mapsto> RpiVoltage_extend]"

section \<open>The hwmon collection and the \<open>sensors\<close> command\<close>

definition HWMON :: path where
  "HWMON = [''sys'', ''class'', ''hwmon'']"

definition Hwmon_parse :: "(string \<rightharpoonup> extension) \<Rightarrow> filesystem \<Rightarrow> Sensor list result" where
  "Hwmon_parse special fs =
     bind (iterdir fs HWMON) (\<lambda>names.
     map_result (\<lambda>h. Sensor_parse special fs (child HWMON h)) names)"

definition Hwmon_json :: "Sensor list \<Rightarrow> json" where
  "Hwmon_json ss = JList (map Sensor_json ss)"

definition Hwmon_str :: "Sensor list \<Rightarrow> string result" where
  "Hwmon_str ss = bind (map_result Sensor_str ss) (\<lambda>blocks. Inr (join [CHR 0x0A] blocks))"

text \<open>
  Lines 396 to 405. What the command writes to the standard output is a list of events:
  \<open>Print s\<close> writes \<open>s\<close> and a line end, \<open>JsonDump j\<close> is the
  \<open>json.dump\<close> of the structured form \<open>j\<close>.
\<close>

datatype stdout_event = Print string | JsonDump json

definition sensors :: "(string \<rightharpoonup> extension) \<Rightarrow> filesystem \<Rightarrow> bool \<Rightarrow> stdout_event list result" where
  "sensors special fs args_json =
     bind (Hwmon_parse special fs) (\<lambda>data.
     if args_json then Inr [JsonDump (Hwmon_json data), Print []]
     else bind (Hwmon_str data) (\<lambda>out. Inr [Print out, Print [], Print ''=^.^='']))"

section \<open>Vocabulary of the properties\<close>

text \<open>The content of an optional file, as the derivation of section 4.1 of the
  specification reads it: absent (\<open>None\<close>), or the number it holds.\<close>

definition spec_optional_int :: "filesystem \<Rightarrow> path \<Rightarrow> int option result" where
  "spec_optional_int fs p = (case read_text fs p of
       Inl e \<Rightarrow> if e = FileNotFoundError then Inr None else Inl e
     | Inr t \<Rightarrow> bind (py_int (py_strip t)) (\<lambda>i. Inr (Some i)))"

definition spec_optional_float :: "filesystem \<Rightarrow> path \<Rightarrow> pyfloat option result" where
  "spec_optional_float fs p = (case read_text fs p of
       Inl e \<Rightarrow> if e = FileNotFoundError then Inr None else Inl e
     | Inr t \<Rightarrow> bind (py_float (py_strip t)) (\<lambda>x. Inr (Some x)))"

text \<open>The derivation in the words of section 8 of the specification:
  \<open>derive(raw, None, None) == raw\<close>, \<open>derive(raw, o, None) == raw + o\<close>,
  \<open>derive(raw, o, s) == (raw + o) * s\<close>, the product being Python's.\<close>

fun spec_derive :: "int \<Rightarrow> int option \<Rightarrow> pyfloat option \<Rightarrow> pynum result" where
  "spec_derive raw None None = Inr (PyInt raw)"
| "spec_derive raw (Some off) None = Inr (PyInt (raw + off))"
| "spec_derive raw None (Some s) = py_mul (PyInt raw) (PyFloat s)"
| "spec_derive raw (Some off) (Some s) = py_mul (PyInt (raw + off)) (PyFloat s)"

text \<open>The \<open>(label, kind, value)\<close> tuple of a sensor value.\<close>

definition tuple_of :: "SensorValue \<Rightarrow> string option \<times> SensorKind \<times> pynum" where
  "tuple_of sv = (label sv, kind sv, val sv)"

text \<open>The items of a dict.\<close>

fun items :: "json \<Rightarrow> (string \<times> json) list" where
  "items (JDict kvs) = kvs"
| "items j = []"

text \<open>
  Modelled from the spec: the decoder of the round-trip property (section 8). The
  repository has no decoder; this one reads the structured form back key by key: the
  kind from \<open>type\<close>, the number from \<open>value\<close>, the label from \<open>label\<close> when the key
  is there.
\<close>

definition kind_of_type :: "string \<Rightarrow> SensorKind option" where
  "kind_of_type t = find (\<lambda>k. lower (kind_name k) = t) SensorKind_members"

definition decode_value :: "json \<Rightarrow> (string option \<times> SensorKind \<times> pynum) option" where
  "decode_value j = (case (map_of (items j) ''type'', map_of (items j) ''value'') of
       (Some (JStr t), Some (JNum x)) \<Rightarrow>
         (case kind_of_type t of
            None \<Rightarrow> None
          | Some k \<Rightarrow> Some (case map_of (items j) ''label'' of
                              Some (JStr l) \<Rightarrow> Some l
                            | _ \<Rightarrow> None, k, x))
     | _ \<Rightarrow> None)"

fun decode_values :: "json list \<Rightarrow> (string option \<times> SensorKind \<times> pynum) list option" where
  "decode_values [] = Some []"
| "decode_values (j # js) = (case (decode_value j, decode_values js) of
       (Some t, Some ts) \<Rightarrow> Some (t # ts)
     | _ \<Rightarrow> None)"

definition decode_sensor :: "json \<Rightarrow> (string \<times> (string option \<times> SensorKind \<times> pynum) list) option" where
  "decode_sensor j = (case (map_of (items j) ''name'', map_of (items j) ''values'') of
       (Some (JStr n), Some (JList js)) \<Rightarrow> map_option (Pair n) (decode_values js)
     | _ \<Rightarrow> None)"

section \<open>Example inputs\<close>

text \<open>A file system given by three tables: the text files, the directories with their
  listings, and the paths that resolve to another path. A path in none of them is
  missing, and resolves to itself.\<close>

definition fs_of ::
  "(path \<times> string) list \<Rightarrow> (path \<times> string list) list \<Rightarrow> (path \<times> path) list \<Rightarrow> filesystem"
where
  "fs_of files dirs links =
     \<lparr>read_text = (\<lambda>p. case map_of files p of None \<Rightarrow> Inl FileNotFoundError | Some t \<Rightarrow> Inr t),
      iterdir = (\<lambda>p. case map_of dirs p of None \<Rightarrow> Inl FileNotFoundError | Some ns \<Rightarrow> Inr ns),
      resolve = (\<lambda>p. case map_of links p of None \<Rightarrow> p | Some q \<Rightarrow> q)\<rparr>"

definition hwmon0 :: path where
  "hwmon0 = child HWMON ''hwmon0''"

definition hwmon1 :: path where
  "hwmon1 = child HWMON ''hwmon1''"

definition iio0 :: path where
  "iio0 = [''sys'', ''bus'', ''iio'', ''devices'', ''iio:device0'']"

text \<open>A channel \<open>in0\<close> with the same raw and scale contents in a hwmon directory and in
  an ADC directory.\<close>

definition scaled_fs :: filesystem where
  "scaled_fs = fs_of
     [(child hwmon0 ''in0_input'', ''100''), (child hwmon0 ''in0_scale'', ''0.5''),
      (child iio0 ''in0_raw'', ''100''), (child iio0 ''in0_scale'', ''0.5'')] [] []"

text \<open>The same channel with an offset and without a scale.\<close>

definition offset_fs :: filesystem where
  "offset_fs = fs_of
     [(child hwmon0 ''in0_input'', ''100\<newline>''), (child hwmon0 ''in0_offset'', ''-5\<newline>''),
      (child iio0 ''in0_raw'', ''100\<newline>''), (child iio0 ''in0_offset'', ''-5\<newline>'')] [] []"

text \<open>An ADC channel with raw, offset and scale files.\<close>

definition adc_fs :: filesystem where
  "adc_fs = fs_of
     [(child iio0 ''in_temp_raw'', ''250\<newline>''), (child iio0 ''in_temp_offset'', ''10\<newline>''),
      (child iio0 ''in_temp_scale'', ''0.1\<newline>'')] [] []"

text \<open>A group of the driver \<open>axp20x_battery\<close> that does not lie below a directory
  named \<open>axp20x-battery-power-supply\<close>.\<close>

definition plain_battery_fs :: filesystem where
  "plain_battery_fs = fs_of
     [(child hwmon0 ''name'', ''axp20x_battery\<newline>''),
      (child hwmon0 ''in0_input'', ''4100000\<newline>'')]
     [(hwmon0, [''name'', ''in0_input''])] []"

text \<open>A group of the driver \<open>rpi_volt\<close> with a voltage channel and no alarm file.\<close>

definition rpi_no_alarm_fs :: filesystem where
  "rpi_no_alarm_fs = fs_of
     [(child hwmon0 ''name'', ''rpi_volt\<newline>''), (child hwmon0 ''in0_input'', ''5000\<newline>'')]
     [(hwmon0, [''name'', ''in0_input''])] []"

definition empty_fs :: filesystem where
  "empty_fs = fs_of [] [] []"

definition rpi_sensor :: Sensor where
  "rpi_sensor = \<lparr>cls = SensorClass, name = ''rpi_volt'', values =
     [\<lparr>label = None, kind = VOLTAGE, val = PyInt 5000\<rparr>,
      \<lparr>label = Some ''in0_lcrit_alarm'', kind = ALARM, val = PyInt 1\<rparr>,
      \<lparr>label = Some ''in1_alarm'', kind = ALARM, val = PyInt 0\<rparr>]\<rparr>"

text \<open>A group of \<open>rpi_volt\<close> whose channel \<open>alarm1\<close> has a label file that reads
  \<open>low voltage alarm\<close>, and the sensor that generic parsing returns for it.\<close>

definition rpi_labelled_fs :: filesystem where
  "rpi_labelled_fs = fs_of
     [(child hwmon0 ''name'', ''rpi_volt\<newline>''),
      (child hwmon0 ''alarm1_input'', ''1\<newline>''),
      (child hwmon0 ''alarm1_label'', ''low voltage alarm\<newline>''),
      (child hwmon0 ''in0_lcrit_alarm'', ''1\<newline>'')]
     [(hwmon0, [''name'', ''alarm1_input'', ''alarm1_label'', ''in0_lcrit_alarm''])] []"

definition rpi_labelled_sensor :: Sensor where
  "rpi_labelled_sensor = \<lparr>cls = SensorClass, name = ''rpi_volt'', values =
     [\<lparr>label = Some ''low voltage alarm'', kind = ALARM, val = PyInt 1\<rparr>,
      \<lparr>label = Some ''in0_lcrit_alarm'', kind = ALARM, val = PyInt 1\<rparr>]\<rparr>"

text \<open>A group with a channel whose label file holds a line end only, and the sensor
  that generic parsing returns for it.\<close>

definition empty_label_fs :: filesystem where
  "empty_label_fs = fs_of
     [(child hwmon0 ''name'', ''nct6775\<newline>''),
      (child hwmon0 ''fan1_input'', ''1200\<newline>''),
      (child hwmon0 ''fan1_label'', ''\<newline>'')]
     [(hwmon0, [''name'', ''fan1_input'', ''fan1_label''])] []"

definition empty_label_sensor :: Sensor where
  "empty_label_sensor = \<lparr>cls = SensorClass, name = ''nct6775'', values =
     [\<lparr>label = Some [], kind = FAN, val = PyInt 1200\<rparr>]\<rparr>"

text \<open>
  The battery of a PinePhone: \<open>/sys/class/hwmon/hwmon1\<close> resolves into the device
  directory of the power supply, whose parent has the \<open>driver\<close> link and the ADC.
\<close>

definition pmic :: path where
  "pmic = [''sys'', ''devices'', ''platform'', ''soc'', ''1f03400.rsb'', ''sunxi-rsb-3a3'']"

definition pine_files :: "(path \<times> string) list" where
  "pine_files =
     [(child hwmon1 ''name'', ''axp20x_battery\<newline>''),
      (child (child (child pmic ''axp813-adc'') ''iio:device0'') ''in_temp_raw'', ''250\<newline>''),
      (child (child (child pmic ''axp813-adc'') ''iio:device0'') ''in_temp_scale'', ''0.1\<newline>'')]"

definition pine_dirs :: "(path \<times> string list) list" where
  "pine_dirs =
     [(hwmon1, [''name'']),
      (child pmic ''axp813-adc'', [''uevent'', ''iio:device0''])]"

definition pine_links :: "(path \<times> path) list" where
  "pine_links =
     [(hwmon1, pmic @ [''axp20x-battery-power-supply'', ''power_supply'', ''axp20x-battery'',
                       ''hwmon'', ''hwmon1'']),
      (child pmic ''driver'', [''sys'', ''bus'', ''sunxi-rsb'', ''drivers'', ''axp20x-rsb''])]"

definition pine_fs :: filesystem where
  "pine_fs = fs_of pine_files pine_dirs pine_links"

text \<open>The same, with an offset file beside the raw and the scale file.\<close>

definition pine_offset_fs :: filesystem where
  "pine_offset_fs = fs_of
     ((child (child (child pmic ''axp813-adc'') ''iio:device0'') ''in_temp_offset'', ''10\<newline>'')
      # pine_files) pine_dirs pine_links"

definition battery_sensor :: Sensor where
  "battery_sensor = \<lparr>cls = SensorClass, name = ''axp20x_battery'', values = []\<rparr>"

text \<open>Two fan controllers.\<close>

definition fans_fs :: filesystem where
  "fans_fs = fs_of
     [(child hwmon0 ''name'', ''fan_a\<newline>''), (child hwmon0 ''fan1_input'', ''1200\<newline>''),
      (child hwmon1 ''name'', ''fan_b\<newline>''), (child hwmon1 ''fan1_input'', ''900\<newline>'')]
     [(HWMON, [''hwmon0'', ''hwmon1'']),
      (hwmon0, [''name'', ''fan1_input'']), (hwmon1, [''name'', ''fan1_input''])] []"

text \<open>A system whose \<open>/sys/class/hwmon\<close> is empty.\<close>

definition no_sensors_fs :: filesystem where
  "no_sensors_fs = fs_of [] [(HWMON, [])] []"

definition fan_sensors :: "Sensor list" where
  "fan_sensors =
     [\<lparr>cls = SensorClass, name = ''fan_a'', values = [\<lparr>label = None, kind = FAN, val = PyInt 1200\<rparr>]\<rparr>,
      \<lparr>cls = SensorClass, name = ''fan_b'', values = [\<lparr>label = None, kind = FAN, val = PyInt 900\<rparr>]\<rparr>]"

section \<open>Properties\<close>

subsection \<open>Auxiliary facts\<close>

lemma bind_Inr [simp]: "bind (Inr x) f = f x"
  by (simp add: bind_def)

lemma bind_Inl [simp]: "bind (Inl e) f = Inl e"
  by (simp add: bind_def)

text \<open>\<open>ipow\<close> is the power.\<close>

lemma ipow_power: "ipow b k = b ^ nat k"
proof (induction b k rule: ipow.induct)
  case (1 b k)
  show ?case
  proof (cases "k \<le> 0")
    case True
    then show ?thesis by (subst ipow.simps) simp
  next
    case False
    have sq: "(b * b) ^ nat (k div 2) = b ^ (2 * nat (k div 2))"
      by (simp add: power_mult power2_eq_square)
    show ?thesis
    proof (cases "even k")
      case True
      with False have "nat k = 2 * nat (k div 2)"
        by (auto elim!: evenE)
      with 1 False True sq show ?thesis
        by (subst ipow.simps) simp
    next
      case odd: False
      with False have "nat k = Suc (2 * nat (k div 2))"
        by (auto elim!: oddE)
      with 1 False odd sq show ?thesis
        by (subst ipow.simps) simp
    qed
  qed
qed

lemma pow_int_power: "0 \<le> k \<Longrightarrow> pow_int b k = b ^ nat k"
  by (simp add: pow_int_def ipow_power)

lemma is_int_iff: "is_int x \<longleftrightarrow> \<not> is_float x"
  by (cases x) simp_all

lemma py_mul_int_float_is_float:
  "py_mul (PyInt a) (PyFloat y) = Inr x \<Longrightarrow> is_float x"
  by (cases "float_of_int a") auto

text \<open>Stripping: what \<open>strip_with\<close> removes, and when it removes nothing more.\<close>

lemma strip_with_decompose:
  "\<exists>w1 w2. s = w1 @ strip_with P s @ w2 \<and> (\<forall>x \<in> set w1. P x) \<and> (\<forall>x \<in> set w2. P x)"
proof -
  let ?d = "dropWhile P s"
  let ?w1 = "takeWhile P s"
  let ?w2 = "rev (takeWhile P (rev ?d))"
  have "strip_with P s @ ?w2 = rev (takeWhile P (rev ?d) @ dropWhile P (rev ?d))"
    by (simp add: strip_with_def del: takeWhile_dropWhile_id)
  also have "\<dots> = ?d"
    by simp
  finally have "?d = strip_with P s @ ?w2"
    by (rule sym)
  then have "s = ?w1 @ strip_with P s @ ?w2"
    by (metis takeWhile_dropWhile_id)
  moreover have "\<forall>x \<in> set ?w1. P x"
    by (auto dest: set_takeWhileD)
  moreover have "\<forall>x \<in> set ?w2. P x"
    by (auto dest: set_takeWhileD)
  ultimately show ?thesis by blast
qed

lemma strip_with_sandwich:
  assumes "b \<noteq> []" "\<not> Q (hd b)" "\<not> Q (last b)" "\<forall>x \<in> set w1. Q x" "\<forall>x \<in> set w2. Q x"
  shows "strip_with Q (w1 @ b @ w2) = b"
proof -
  have "dropWhile Q (w1 @ b @ w2) = b @ w2"
    using assms by (cases b) (simp_all add: dropWhile_append)
  moreover have "dropWhile Q (rev w2 @ rev b) = rev b"
    using assms by (cases b rule: rev_cases) (simp_all add: dropWhile_append)
  ultimately show ?thesis
    by (simp add: strip_with_def)
qed

text \<open>Text that \<open>int()\<close> accepts begins, after the C whitespace, with a sign or a digit
  and ends with a digit; \<open>strip()\<close> before \<open>int()\<close> then changes nothing.\<close>

lemma digit_part_ends:
  "digit_part prev s = Some ds \<Longrightarrow>
     (s \<noteq> [] \<longrightarrow> is_digit (last s)) \<and> (\<not> prev \<longrightarrow> s \<noteq> [] \<and> is_digit (hd s))"
proof (induction prev s arbitrary: ds rule: digit_part.induct)
  case (1 prev)
  then show ?case by (simp split: if_splits)
next
  case (2 prev c cs)
  then show ?case
    by (cases "c = CHR ''_''"; cases "is_digit c"; cases "cs = []")
       (auto split: if_splits)
qed

lemma is_space_not_digit: "is_digit c \<Longrightarrow> \<not> is_space c"
  by (auto simp: is_digit_def is_space_def Let_def)

lemma is_c_space_is_space: "is_c_space c \<Longrightarrow> is_space c"
  by (auto simp: is_c_space_def is_space_def Let_def)

lemma split_sign_ends:
  assumes "split_sign b = (neg, body)" "body \<noteq> []" "is_digit (hd body)" "is_digit (last body)"
  shows "b \<noteq> [] \<and> \<not> is_space (hd b) \<and> \<not> is_space (last b)"
proof (cases b)
  case Nil
  with assms show ?thesis by (simp add: split_sign_def)
next
  case (Cons c cs)
  have sign: "\<not> is_space CHR ''-''" "\<not> is_space CHR ''+''"
    by (simp_all add: is_space_def)
  from Cons assms sign show ?thesis
    by (auto simp: split_sign_def is_space_not_digit split: if_splits)
qed

lemma py_int_body:
  assumes "py_int t = Inr r"
  shows "strip_with is_c_space t \<noteq> []
         \<and> \<not> is_space (hd (strip_with is_c_space t))
         \<and> \<not> is_space (last (strip_with is_c_space t))"
proof -
  let ?b = "strip_with is_c_space t"
  obtain neg body where sp: "split_sign ?b = (neg, body)"
    by (cases "split_sign ?b")
  with assms obtain ds where dp: "digit_part False body = Some ds"
    by (auto simp: py_int_def split: option.splits)
  from digit_part_ends [OF dp] have body: "body \<noteq> []" "is_digit (hd body)" "is_digit (last body)"
    by simp_all
  from sp body show ?thesis
    by (rule split_sign_ends)
qed

lemma py_int_strip:
  assumes "py_int t = Inr r"
  shows "py_int (py_strip t) = Inr r"
proof -
  let ?b = "strip_with is_c_space t"
  from py_int_body [OF assms] have b: "?b \<noteq> []" "\<not> is_space (hd ?b)" "\<not> is_space (last ?b)"
    by simp_all
  obtain w1 w2 where t: "t = w1 @ ?b @ w2"
    and w: "\<forall>x \<in> set w1. is_c_space x" "\<forall>x \<in> set w2. is_c_space x"
    using strip_with_decompose [of t is_c_space] by blast
  from w have w': "\<forall>x \<in> set w1. is_space x" "\<forall>x \<in> set w2. is_space x"
    by (auto dest: is_c_space_is_space)
  have "strip_with is_space (w1 @ ?b @ w2) = ?b"
    using b w' by (rule strip_with_sandwich)
  with t have s: "py_strip t = ?b"
    by (simp add: py_strip_def)
  from b have "\<not> is_c_space (hd ?b)" "\<not> is_c_space (last ?b)"
    by (auto dest: is_c_space_is_space)
  with b(1) have "strip_with is_c_space ([] @ ?b @ []) = ?b"
    by (intro strip_with_sandwich) simp_all
  then have "strip_with is_c_space ?b = ?b"
    by simp
  with s assms show ?thesis
    by (simp add: py_int_def)
qed

text \<open>The float \<open>0.1\<close>, and 250 times it.\<close>

lemma float_one_tenth:
  "py_float ''0.1'' = Inr (Finite False (3602879701896397 / 36028797018963968))"
  by code_simp

lemma times_one_tenth:
  "py_mul (PyInt 250) (PyFloat (Finite False (3602879701896397 / 36028797018963968)))
     = Inr (PyFloat (Finite False 25))"
  by code_simp

subsection \<open>The derivation of a hwmon channel and \<open>adc_value\<close>\<close>

text \<open>
  Claim C1, as amended. Generic parsing reads \<open><channel>_input\<close> as an integer and adds
  \<open><channel>_offset\<close> when the file is there; it reads no scale file and does not call
  \<open>adc_value\<close>. For a channel and an ADC item with the same raw and offset contents,
  contents that \<open>int()\<close> accepts, and no scale file, both derivations return the same
  integer.
\<close>

theorem C1_hwmon_channel_agrees_without_scale:
  assumes "read_text fs v = Inr t"
      and "read_text fs (child iio (item @ ''_raw'')) = Inr t"
      and "py_int t = Inr r"
      and "read_text fs (child hwmon (s @ ''_offset'')) = read_text fs (child iio (item @ ''_offset''))"
      and "read_text fs (child iio (item @ ''_offset'')) = Inl FileNotFoundError
           \<or> (\<exists>t' off. read_text fs (child iio (item @ ''_offset'')) = Inr t' \<and> py_int t' = Inr off)"
      and "read_text fs (child iio (item @ ''_scale'')) = Inl FileNotFoundError"
    shows "channel_value fs hwmon v s = adc_value fs iio item
           \<and> (\<exists>n. channel_value fs hwmon v s = Inr (PyInt n))"
proof -
  from assms(3) have r: "py_int (py_strip t) = Inr r"
    by (rule py_int_strip)
  from assms(5) show ?thesis
  proof
    assume "read_text fs (child iio (item @ ''_offset'')) = Inl FileNotFoundError"
    with assms r show ?thesis
      by (simp add: channel_value_def adc_value_def)
  next
    assume "\<exists>t' off. read_text fs (child iio (item @ ''_offset'')) = Inr t' \<and> py_int t' = Inr off"
    then obtain t' off where o: "read_text fs (child iio (item @ ''_offset'')) = Inr t'"
      and p: "py_int t' = Inr off"
      by blast
    from p have "py_int (py_strip t') = Inr off"
      by (rule py_int_strip)
    with assms r o p show ?thesis
      by (simp add: channel_value_def adc_value_def)
  qed
qed

theorem C1_hwmon_channel_agrees_without_scale_witness:
  "channel_value offset_fs hwmon0 (child hwmon0 ''in0_input'') ''in0'' = adc_value offset_fs iio0 ''in0''
   \<and> channel_value offset_fs hwmon0 (child hwmon0 ''in0_input'') ''in0'' = Inr (PyInt 95)"
proof -
  have h1: "read_text offset_fs (child hwmon0 ''in0_input'') = Inr ''100\<newline>''"
    by code_simp
  have h2: "read_text offset_fs (child iio0 (''in0'' @ ''_raw'')) = Inr ''100\<newline>''"
    by code_simp
  have h3: "py_int ''100\<newline>'' = Inr 100"
    by code_simp
  have h4: "read_text offset_fs (child hwmon0 (''in0'' @ ''_offset''))
            = read_text offset_fs (child iio0 (''in0'' @ ''_offset''))"
    by code_simp
  have h5a: "read_text offset_fs (child iio0 (''in0'' @ ''_offset'')) = Inr ''-5\<newline>''"
    by code_simp
  have h5b: "py_int ''-5\<newline>'' = Inr (- 5)"
    by code_simp
  from h5a h5b have h5: "read_text offset_fs (child iio0 (''in0'' @ ''_offset'')) = Inl FileNotFoundError
           \<or> (\<exists>t' off. read_text offset_fs (child iio0 (''in0'' @ ''_offset'')) = Inr t' \<and> py_int t' = Inr off)"
    by blast
  have h6: "read_text offset_fs (child iio0 (''in0'' @ ''_scale'')) = Inl FileNotFoundError"
    by code_simp
  have v: "channel_value offset_fs hwmon0 (child hwmon0 ''in0_input'') ''in0'' = Inr (PyInt 95)"
    by code_simp
  from C1_hwmon_channel_agrees_without_scale [OF h1 h2 h3 h4 h5 h6] v show ?thesis
    by blast
qed

text \<open>The claim as stated fails: with the same raw and scale contents (100 and 0.5, no
  offset) the hwmon channel is the integer 100 and \<open>adc_value\<close> is the float 50.0.\<close>

theorem C1_counterexample:
  "read_text scaled_fs (child hwmon0 ''in0_input'') = read_text scaled_fs (child iio0 ''in0_raw'')
   \<and> read_text scaled_fs (child hwmon0 ''in0_offset'') = read_text scaled_fs (child iio0 ''in0_offset'')
   \<and> read_text scaled_fs (child hwmon0 ''in0_scale'') = read_text scaled_fs (child iio0 ''in0_scale'')
   \<and> read_text scaled_fs (child hwmon0 ''in0_scale'') = Inr ''0.5''
   \<and> channel_value scaled_fs hwmon0 (child hwmon0 ''in0_input'') ''in0'' = Inr (PyInt 100)
   \<and> adc_value scaled_fs iio0 ''in0'' = Inr (PyFloat (Finite False 50))"
  by code_simp

text \<open>
  Claim C2. With the raw file holding the integer \<open>raw\<close>, \<open>adc_value\<close> is the
  derivation of the specification: \<open>raw\<close> without offset and scale files, \<open>raw + o\<close>
  with an offset \<open>o\<close>, and Python's product \<open>(raw + o) * s\<close> with a scale \<open>s\<close>. The
  result is an \<open>int\<close> exactly when there is no scale file, a \<open>float\<close> otherwise.
\<close>

theorem C2_adc_value_derivation:
  assumes "read_text fs (child iio (item @ ''_raw'')) = Inr t"
      and "py_int (py_strip t) = Inr raw"
      and "spec_optional_int fs (child iio (item @ ''_offset'')) = Inr off"
      and "spec_optional_float fs (child iio (item @ ''_scale'')) = Inr sc"
    shows "adc_value fs iio item = spec_derive raw off sc
           \<and> (\<forall>x. adc_value fs iio item = Inr x \<longrightarrow>
                 (is_int x \<longleftrightarrow> read_text fs (child iio (item @ ''_scale'')) = Inl FileNotFoundError)
               \<and> (is_float x \<longleftrightarrow> sc \<noteq> None))"
proof -
  have eq: "adc_value fs iio item = spec_derive raw off sc"
    using assms
    by (cases off; cases sc)
       (auto simp: adc_value_def spec_optional_int_def spec_optional_float_def bind_def
             split: sum.splits if_splits)
  have absent: "sc = None \<longleftrightarrow> read_text fs (child iio (item @ ''_scale'')) = Inl FileNotFoundError"
    using assms(4)
    by (auto simp: spec_optional_float_def bind_def split: sum.splits if_splits)
  have kind: "is_float x \<longleftrightarrow> sc \<noteq> None"
    if "spec_derive raw off sc = Inr x" for x
    using that
    by (cases off; cases sc) (auto dest: py_mul_int_float_is_float simp del: py_mul.simps)
  show ?thesis
    using eq absent kind by (auto simp: is_int_iff)
qed

theorem C2_adc_value_derivation_witness:
  "adc_value adc_fs iio0 ''in_temp'' =
     spec_derive 250 (Some 10) (Some (Finite False (3602879701896397 / 36028797018963968)))
   \<and> adc_value adc_fs iio0 ''in_temp'' = Inr (PyFloat (Finite False 26))
   \<and> is_float (PyFloat (Finite False 26))
   \<and> read_text adc_fs (child iio0 (''in_temp'' @ ''_scale'')) \<noteq> Inl FileNotFoundError"
proof -
  have h1: "read_text adc_fs (child iio0 (''in_temp'' @ ''_raw'')) = Inr ''250\<newline>''"
    by code_simp
  have h2: "py_int (py_strip ''250\<newline>'') = Inr 250"
    by code_simp
  have h3: "spec_optional_int adc_fs (child iio0 (''in_temp'' @ ''_offset'')) = Inr (Some 10)"
    by code_simp
  have h4: "spec_optional_float adc_fs (child iio0 (''in_temp'' @ ''_scale''))
            = Inr (Some (Finite False (3602879701896397 / 36028797018963968)))"
    by code_simp
  have v: "spec_derive 250 (Some 10) (Some (Finite False (3602879701896397 / 36028797018963968)))
           = Inr (PyFloat (Finite False 26))"
    by code_simp
  note C = C2_adc_value_derivation [OF h1 h2 h3 h4]
  have a: "adc_value adc_fs iio0 ''in_temp'' =
     spec_derive 250 (Some 10) (Some (Finite False (3602879701896397 / 36028797018963968)))"
    using C by (rule conjunct1)
  have b: "adc_value adc_fs iio0 ''in_temp'' = Inr (PyFloat (Finite False 26))"
    using a v by (rule trans)
  have c: "is_float (PyFloat (Finite False 26))"
    using C b by blast
  have d: "read_text adc_fs (child iio0 (''in_temp'' @ ''_scale'')) \<noteq> Inl FileNotFoundError"
    using C b c by (auto simp: is_int_iff)
  show ?thesis
    using a b c d by blast
qed

subsection \<open>Dispatch when the battery extension declines\<close>

text \<open>\<open>Sensor.parse\<close> does return the generic sensor when \<open>extend\<close> raises
  \<open>SensorNotSupported\<close>; but the two \<open>raise\<close> statements of the battery extension raise
  \<open>AttributeError\<close>.\<close>

lemma Sensor_parse_falls_back:
  assumes "read_text fs (child hwmon ''name'') = Inr t"
      and "Sensor__parse SensorClass fs hwmon (Some (py_strip t)) = Inr generic"
      and "special (py_strip t) = Some ext"
      and "ext fs hwmon generic = Inl SensorNotSupported"
    shows "Sensor_parse special fs hwmon = Inr generic"
  using assms by (simp add: Sensor_parse_def)

lemma raise_not_supported_raises: "raise_not_supported base = Inl AttributeError"
  by (simp add: raise_not_supported_def cls_name_def)

lemma find_battery_last:
  "find_battery battery bs =
     (if filter (\<lambda>b. path_name b = POWER_SUPPLY) bs = [] then battery
      else Some (last (filter (\<lambda>b. path_name b = POWER_SUPPLY) bs)))"
  by (induction bs arbitrary: battery) simp_all

lemma Axp20Battery_extend_without_power_supply:
  assumes "filter (\<lambda>b. path_name b = POWER_SUPPLY) (parents (resolve fs hwmon)) = []"
  shows "Axp20Battery_extend fs hwmon base = Inl AttributeError"
  using assms
  by (simp add: Axp20Battery_extend_def find_battery_last raise_not_supported_raises)

text \<open>
  Claim C3 says that \<open>Sensor.parse\<close> returns the generic sensor when the extension
  declines, and that nothing reaches the caller. On a group of \<open>axp20x_battery\<close> that
  is not below the power supply directory, generic parsing succeeds and \<open>Sensor.parse\<close>
  raises \<open>AttributeError\<close>.
\<close>

theorem C3_not_supported_is_attribute_error:
  "Sensor__parse SensorClass plain_battery_fs hwmon0 None =
     Inr \<lparr>cls = SensorClass, name = ''axp20x_battery'',
          values = [\<lparr>label = None, kind = VOLTAGE, val = PyInt 4100000\<rparr>]\<rparr>
   \<and> Sensor_parse SPECIAL plain_battery_fs hwmon0 = Inl AttributeError"
  by code_simp

subsection \<open>Text of a sensor value\<close>

text \<open>
  Claim C4. The kinds with a milli unit are voltage, temperature and current: for them
  the text shows the stored number divided by 1000 (Python's \<open>/\<close>, whose exception is
  the exception of the rendering) and the unit without its \<open>m\<close>. The kinds with a micro
  unit are power and energy: for them the text shows the stored number itself and the
  unit with its prefix.
\<close>

theorem C4_text_rendering:
  "SensorValue_str \<lparr>label = l, kind = VOLTAGE, val = x\<rparr> =
     bind (py_truediv x (PyInt 1000)) (\<lambda>v. Inr
       (label_or_kind \<lparr>label = l, kind = VOLTAGE, val = x\<rparr> @ '': '' @ py_str v @ '' V''))
   \<and> SensorValue_str \<lparr>label = l, kind = TEMPERATURE, val = x\<rparr> =
     bind (py_truediv x (PyInt 1000)) (\<lambda>v. Inr
       (label_or_kind \<lparr>label = l, kind = TEMPERATURE, val = x\<rparr> @ '': '' @ py_str v
        @ [CHR '' '', CHR 0xC2, CHR 0xB0, CHR ''C'']))
   \<and> SensorValue_str \<lparr>label = l, kind = CURRENT, val = x\<rparr> =
     bind (py_truediv x (PyInt 1000)) (\<lambda>v. Inr
       (label_or_kind \<lparr>label = l, kind = CURRENT, val = x\<rparr> @ '': '' @ py_str v @ '' A''))
   \<and> SensorValue_str \<lparr>label = l, kind = POWER, val = x\<rparr> =
     Inr (label_or_kind \<lparr>label = l, kind = POWER, val = x\<rparr> @ '': '' @ py_str x
          @ [CHR '' '', CHR 0xC2, CHR 0xB5, CHR ''W''])
   \<and> SensorValue_str \<lparr>label = l, kind = ENERGY, val = x\<rparr> =
     Inr (label_or_kind \<lparr>label = l, kind = ENERGY, val = x\<rparr> @ '': '' @ py_str x
          @ [CHR '' '', CHR 0xC2, CHR 0xB5, CHR ''J''])
   \<and> ((\<exists>u. unit k = Some (CHR ''m'' # u)) \<longleftrightarrow> k = VOLTAGE \<or> k = TEMPERATURE \<or> k = CURRENT)
   \<and> ((\<exists>u. unit k = Some (CHR 0xC2 # CHR 0xB5 # u)) \<longleftrightarrow> k = POWER \<or> k = ENERGY)"
proof -
  have units: "((\<exists>u. unit k = Some (CHR ''m'' # u)) \<longleftrightarrow> k = VOLTAGE \<or> k = TEMPERATURE \<or> k = CURRENT)
      \<and> ((\<exists>u. unit k = Some (CHR 0xC2 # CHR 0xB5 # u)) \<longleftrightarrow> k = POWER \<or> k = ENERGY)"
    by (cases k) simp_all
  then show ?thesis
    by (simp add: SensorValue_str_def startswith_def lstrip_def bind_def split: sum.splits)
qed

text \<open>The example of the specification: 45000 millidegrees read \<open>temperature: 45.0 \<degree>C\<close>.\<close>

theorem C4_text_rendering_witness:
  "SensorValue_str \<lparr>label = None, kind = TEMPERATURE, val = PyInt 45000\<rparr>
     = Inr (''temperature: 45.0 '' @ [CHR 0xC2, CHR 0xB0, CHR ''C''])
   \<and> SensorValue_str \<lparr>label = Some ''SoC'', kind = POWER, val = PyInt 45000\<rparr>
     = Inr (''SoC: 45000 '' @ [CHR 0xC2, CHR 0xB5, CHR ''W''])"
proof -
  have q: "py_truediv (PyInt 45000) (PyInt 1000) = Inr (PyFloat (Finite False 45))"
    by code_simp
  have s: "py_str (PyFloat (Finite False 45)) = ''45.0''" "py_str (PyInt 45000) = ''45000''"
    by code_simp+
  have l: "label_or_kind \<lparr>label = None, kind = TEMPERATURE, val = PyInt 45000\<rparr> = ''temperature''"
    "label_or_kind \<lparr>label = Some ''SoC'', kind = POWER, val = PyInt 45000\<rparr> = ''SoC''"
    by code_simp+
  from C4_text_rendering [of None "PyInt 45000" TEMPERATURE]
  have "SensorValue_str \<lparr>label = None, kind = TEMPERATURE, val = PyInt 45000\<rparr>
     = Inr (''temperature: 45.0 '' @ [CHR 0xC2, CHR 0xB0, CHR ''C''])"
    by (simp only: q s l bind_Inr) simp
  moreover from C4_text_rendering [of "Some ''SoC''" "PyInt 45000" POWER]
  have "SensorValue_str \<lparr>label = Some ''SoC'', kind = POWER, val = PyInt 45000\<rparr>
     = Inr (''SoC: 45000 '' @ [CHR 0xC2, CHR 0xB5, CHR ''W''])"
    by (simp only: q s l bind_Inr) simp
  ultimately show ?thesis
    by (rule conjI)
qed

subsection \<open>The structured form and its decoding\<close>

lemma kind_of_type_lower: "kind_of_type (lower (kind_name k)) = Some k"
  by (cases k) (simp_all add: kind_of_type_def SensorKind_members_def lower_def lower_char_def)

lemma decode_value_json:
  "decode_value (SensorValue_json sv) =
     Some (if label sv = Some [] then None else label sv, kind sv, val sv)"
  by (cases "label sv"; cases "unit (kind sv)")
     (simp_all add: decode_value_def SensorValue_json_def kind_of_type_lower)

lemma decode_values_json:
  "decode_values (map SensorValue_json svs) =
     Some (map (\<lambda>sv. (if label sv = Some [] then None else label sv, kind sv, val sv)) svs)"
  by (induction svs) (simp_all add: decode_value_json)

text \<open>
  Claim C5, as amended. Decoding the structured form of a sensor gives back its name
  and the \<open>(label, kind, value)\<close> tuples of its values in order, except that an
  empty-string label comes back as \<open>None\<close>. For a sensor without empty-string labels
  the tuples are the same, as a list and so as a multiset.
\<close>

theorem C5_roundtrip_up_to_empty_labels:
  "decode_sensor (Sensor_json s) =
     Some (name s, map (\<lambda>sv. (if label sv = Some [] then None else label sv, kind sv, val sv)) (values s))
   \<and> (Some [] \<notin> set (map label (values s)) \<longrightarrow>
        (\<exists>ts. decode_sensor (Sensor_json s) = Some (name s, ts)
              \<and> mset ts = mset (map tuple_of (values s))))"
proof (intro conjI impI)
  show d: "decode_sensor (Sensor_json s) =
     Some (name s, map (\<lambda>sv. (if label sv = Some [] then None else label sv, kind sv, val sv)) (values s))"
    by (simp add: decode_sensor_def Sensor_json_def decode_values_json)
  assume h: "Some [] \<notin> set (map label (values s))"
  have "label sv \<noteq> Some []" if "sv \<in> set (values s)" for sv
    using h that by (metis image_eqI set_map)
  then have "map (\<lambda>sv. (if label sv = Some [] then None else label sv, kind sv, val sv)) (values s)
        = map tuple_of (values s)"
    by (intro map_cong) (simp_all add: tuple_of_def)
  with d have "decode_sensor (Sensor_json s) = Some (name s, map tuple_of (values s))"
    by (simp only:)
  then show "\<exists>ts. decode_sensor (Sensor_json s) = Some (name s, ts)
              \<and> mset ts = mset (map tuple_of (values s))"
    by blast
qed

theorem C5_roundtrip_up_to_empty_labels_witness:
  "Some [] \<notin> set (map label (values rpi_sensor))
   \<and> decode_sensor (Sensor_json rpi_sensor) =
       Some (''rpi_volt'', [(None, VOLTAGE, PyInt 5000), (Some ''in0_lcrit_alarm'', ALARM, PyInt 1),
                            (Some ''in1_alarm'', ALARM, PyInt 0)])
   \<and> mset [(None, VOLTAGE, PyInt 5000), (Some ''in0_lcrit_alarm'', ALARM, PyInt 1),
            (Some ''in1_alarm'', ALARM, PyInt 0)] = mset (map tuple_of (values rpi_sensor))"
  using C5_roundtrip_up_to_empty_labels [of rpi_sensor]
  by (simp add: rpi_sensor_def tuple_of_def)

text \<open>The claim as stated fails. A channel whose label file is empty is parsed with the
  empty label; that value and the same value with no label have the same structured
  form, so no decoder gives both back, and the decoder returns the label \<open>None\<close>.\<close>

theorem C5_counterexample:
  "Sensor_parse SPECIAL empty_label_fs hwmon0 = Inr empty_label_sensor
   \<and> Sensor_json empty_label_sensor =
     Sensor_json (empty_label_sensor\<lparr>values := [\<lparr>label = None, kind = FAN, val = PyInt 1200\<rparr>]\<rparr>)
   \<and> decode_sensor (Sensor_json empty_label_sensor) = Some (''nct6775'', [(None, FAN, PyInt 1200)])
   \<and> map tuple_of (values empty_label_sensor) = [(Some [], FAN, PyInt 1200)]
   \<and> mset [(None, FAN, PyInt 1200)] \<noteq> mset (map tuple_of (values empty_label_sensor))"
  by code_simp

subsection \<open>The low-voltage-alarm extension\<close>

lemma SensorValue_eq_label: "SensorValue_eq x a \<Longrightarrow> label x = label a"
  by (simp add: SensorValue_eq_def)

lemma find_alarm_remove:
  assumes "filter (\<lambda>v. label v = Some ''in0_lcrit_alarm'') xs = [a]"
  shows "\<exists>k. find_alarm bound i xs = Some (i + k, a)
             \<and> list_remove a k xs = Inr (filter (\<lambda>v. label v \<noteq> Some ''in0_lcrit_alarm'') xs)"
  using assms
proof (induction xs arbitrary: bound i)
  case Nil
  then show ?case by simp
next
  case (Cons x xs)
  show ?case
  proof (cases "label x = Some ''in0_lcrit_alarm''")
    case True
    with Cons.prems have xa: "x = a" and none: "filter (\<lambda>v. label v = Some ''in0_lcrit_alarm'') xs = []"
      by simp_all
    from none have "filter (\<lambda>v. label v \<noteq> Some ''in0_lcrit_alarm'') xs = xs"
      by (simp add: filter_empty_conv filter_id_conv)
    with True xa have "find_alarm bound i (x # xs) = Some (i + 0, a)
        \<and> list_remove a 0 (x # xs) = Inr (filter (\<lambda>v. label v \<noteq> Some ''in0_lcrit_alarm'') (x # xs))"
      by simp
    then show ?thesis by blast
  next
    case False
    with Cons.prems have one: "filter (\<lambda>v. label v = Some ''in0_lcrit_alarm'') xs = [a]"
      by simp
    then have "a \<in> set (filter (\<lambda>v. label v = Some ''in0_lcrit_alarm'') xs)"
      by simp
    then have la: "label a = Some ''in0_lcrit_alarm''"
      by simp
    from Cons.IH [OF one, of "Some (i, x)" "Suc i"]
    obtain k where k: "find_alarm (Some (i, x)) (Suc i) xs = Some (Suc i + k, a)"
      and r: "list_remove a k xs = Inr (filter (\<lambda>v. label v \<noteq> Some ''in0_lcrit_alarm'') xs)"
      by blast
    from False la have ne: "\<not> SensorValue_eq x a"
      by (auto dest: SensorValue_eq_label)
    from False k r ne have "find_alarm bound i (x # xs) = Some (i + Suc k, a)
        \<and> list_remove a (Suc k) (x # xs) = Inr (filter (\<lambda>v. label v \<noteq> Some ''in0_lcrit_alarm'') (x # xs))"
      by simp
    then show ?thesis by blast
  qed
qed

text \<open>
  Claim C6, as amended. When exactly one value \<open>a\<close> is labelled \<open>in0_lcrit_alarm\<close>,
  the extension returns the other values unchanged and in order, followed by one new
  value labelled \<open>low voltage alarm\<close> with the kind and the number of \<open>a\<close>. No value of
  the result is labelled \<open>in0_lcrit_alarm\<close>; the values labelled \<open>low voltage alarm\<close>
  are the new one and those that had the label before.
\<close>

theorem C6_relabels_the_alarm:
  assumes "filter (\<lambda>v. label v = Some ''in0_lcrit_alarm'') (values base) = [a]"
  shows "RpiVoltage_extend fs hwmon base =
           Inr \<lparr>cls = RpiVoltageClass, name = name base,
                values = filter (\<lambda>v. label v \<noteq> Some ''in0_lcrit_alarm'') (values base)
                         @ [\<lparr>label = Some ''low voltage alarm'', kind = kind a, val = val a\<rparr>]\<rparr>"
proof -
  from find_alarm_remove [OF assms, of None 0]
  obtain k where "find_alarm None 0 (values base) = Some (k, a)"
    and "list_remove a k (values base) = Inr (filter (\<lambda>v. label v \<noteq> Some ''in0_lcrit_alarm'') (values base))"
    by auto
  then show ?thesis
    by (cases a) (simp add: RpiVoltage_extend_def)
qed

theorem C6_relabels_the_alarm_witness:
  "filter (\<lambda>v. label v = Some ''in0_lcrit_alarm'') (values rpi_sensor)
     = [\<lparr>label = Some ''in0_lcrit_alarm'', kind = ALARM, val = PyInt 1\<rparr>]
   \<and> RpiVoltage_extend empty_fs hwmon0 rpi_sensor =
       Inr \<lparr>cls = RpiVoltageClass, name = ''rpi_volt'',
            values = [\<lparr>label = None, kind = VOLTAGE, val = PyInt 5000\<rparr>,
                      \<lparr>label = Some ''in1_alarm'', kind = ALARM, val = PyInt 0\<rparr>,
                      \<lparr>label = Some ''low voltage alarm'', kind = ALARM, val = PyInt 1\<rparr>]\<rparr>"
proof -
  have h: "filter (\<lambda>v. label v = Some ''in0_lcrit_alarm'') (values rpi_sensor)
     = [\<lparr>label = Some ''in0_lcrit_alarm'', kind = ALARM, val = PyInt 1\<rparr>]"
    by (simp add: rpi_sensor_def)
  show ?thesis
    using h C6_relabels_the_alarm [OF h, of empty_fs hwmon0]
    by (simp add: rpi_sensor_def)
qed

text \<open>The claim as stated fails: when the label file of a channel reads
  \<open>low voltage alarm\<close>, two values have the label afterwards.\<close>

theorem C6_counterexample:
  "Sensor__parse SensorClass rpi_labelled_fs hwmon0 None = Inr rpi_labelled_sensor
   \<and> Sensor_parse SPECIAL rpi_labelled_fs hwmon0 =
       Inr \<lparr>cls = RpiVoltageClass, name = ''rpi_volt'',
            values = [\<lparr>label = Some ''low voltage alarm'', kind = ALARM, val = PyInt 1\<rparr>,
                      \<lparr>label = Some ''low voltage alarm'', kind = ALARM, val = PyInt 1\<rparr>]\<rparr>
   \<and> length (filter (\<lambda>v. label v = Some ''in0_lcrit_alarm'') (values rpi_labelled_sensor)) = 1
   \<and> RpiVoltage_extend empty_fs hwmon0 rpi_labelled_sensor =
       Inr \<lparr>cls = RpiVoltageClass, name = ''rpi_volt'',
            values = [\<lparr>label = Some ''low voltage alarm'', kind = ALARM, val = PyInt 1\<rparr>,
                      \<lparr>label = Some ''low voltage alarm'', kind = ALARM, val = PyInt 1\<rparr>]\<rparr>
   \<and> length (filter (\<lambda>v. label v = Some ''low voltage alarm'')
        [\<lparr>label = Some ''low voltage alarm'', kind = ALARM, val = PyInt 1\<rparr>,
         \<lparr>label = Some ''low voltage alarm'', kind = ALARM, val = PyInt 1\<rparr>]) = 2"
  by code_simp

text \<open>Without the alarm: an empty list of values fails, any other list comes back with
  its last value relabelled.\<close>

lemma RpiVoltage_extend_no_values:
  "values base = [] \<Longrightarrow> RpiVoltage_extend fs hwmon base = Inl UnboundLocalError"
  by (simp add: RpiVoltage_extend_def)

lemma find_alarm_no_match:
  "\<forall>v \<in> set xs. label v \<noteq> Some ''in0_lcrit_alarm'' \<Longrightarrow>
     find_alarm bound i xs = (if xs = [] then bound else Some (i + length xs - 1, last xs))"
  by (induction xs arbitrary: bound i) auto

lemma list_remove_in_range:
  "k < length xs \<Longrightarrow> \<exists>ys. list_remove a k xs = Inr ys"
proof (induction xs arbitrary: k)
  case Nil
  then show ?case by simp
next
  case (Cons x xs)
  show ?case
  proof (cases k)
    case 0
    then show ?thesis by simp
  next
    case (Suc j)
    with Cons.prems have "j < length xs" by simp
    from Cons.IH [OF this] obtain ys where "list_remove a j xs = Inr ys" by blast
    with Suc show ?thesis by simp
  qed
qed

lemma RpiVoltage_extend_without_alarm:
  assumes "values base \<noteq> []"
      and "\<forall>v \<in> set (values base). label v \<noteq> Some ''in0_lcrit_alarm''"
    shows "\<exists>vs. RpiVoltage_extend fs hwmon base =
             Inr \<lparr>cls = RpiVoltageClass, name = name base,
                  values = vs @ [(last (values base))\<lparr>label := Some ''low voltage alarm''\<rparr>]\<rparr>"
proof -
  from assms have f: "find_alarm None 0 (values base)
      = Some (length (values base) - 1, last (values base))"
    by (simp add: find_alarm_no_match)
  from assms(1) have "length (values base) - 1 < length (values base)"
    by (cases "values base") simp_all
  from list_remove_in_range [OF this]
  obtain ys where "list_remove (last (values base)) (length (values base) - 1) (values base) = Inr ys"
    by blast
  with f show ?thesis
    by (simp add: RpiVoltage_extend_def)
qed

text \<open>
  Claim C7 says that the extension fails with an error when no value is labelled
  \<open>in0_lcrit_alarm\<close>. On a group of \<open>rpi_volt\<close> with one voltage channel and no alarm
  file it does not: the loop ends with the last value bound to \<open>a\<close>, and that value
  comes back relabelled \<open>low voltage alarm\<close>. Only an empty list of values fails.
\<close>

theorem C7_no_match_relabels_last:
  "Sensor__parse SensorClass rpi_no_alarm_fs hwmon0 None =
     Inr \<lparr>cls = SensorClass, name = ''rpi_volt'',
          values = [\<lparr>label = None, kind = VOLTAGE, val = PyInt 5000\<rparr>]\<rparr>
   \<and> Sensor_parse SPECIAL rpi_no_alarm_fs hwmon0 =
     Inr \<lparr>cls = RpiVoltageClass, name = ''rpi_volt'',
          values = [\<lparr>label = Some ''low voltage alarm'', kind = VOLTAGE, val = PyInt 5000\<rparr>]\<rparr>"
  by code_simp

subsection \<open>The battery-temperature extension\<close>

text \<open>
  Claim C8, as amended. The resolved path of the group has an ancestor named
  \<open>axp20x-battery-power-supply\<close>; \<open>battery\<close> is the one nearest the root. The \<open>driver\<close>
  link beside it resolves to a path named \<open>axp20x-rsb\<close>, and \<open>iio\<close> is the first
  \<open>iio:device*\<close> entry of the \<open>axp813-adc\<close> directory beside it. When \<open>in_temp_raw\<close>
  holds 250, \<open>in_temp_scale\<close> holds 0.1 and there is no \<open>in_temp_offset\<close>, the extension
  returns the values of the generic sensor followed by one temperature value 25.0
  without label.
\<close>

theorem C8_battery_temperature:
  assumes "filter (\<lambda>b. path_name b = POWER_SUPPLY) (parents (resolve fs hwmon)) \<noteq> []"
      and "battery = last (filter (\<lambda>b. path_name b = POWER_SUPPLY) (parents (resolve fs hwmon)))"
      and "path_name (resolve fs (child (parent battery) ''driver'')) = DRIVER"
      and "glob fs (child (parent battery) ADC) ''iio:device*'' = iio # others"
      and "read_text fs (child iio ''in_temp_raw'') = Inr t"
      and "py_int (py_strip t) = Inr 250"
      and "read_text fs (child iio ''in_temp_offset'') = Inl FileNotFoundError"
      and "read_text fs (child iio ''in_temp_scale'') = Inr ts"
      and "py_float (py_strip ts) = py_float ''0.1''"
    shows "Axp20Battery_extend fs hwmon base =
             Inr \<lparr>cls = Axp20BatteryClass, name = name base,
                  values = values base
                    @ [\<lparr>label = None, kind = TEMPERATURE, val = PyFloat (Finite False 25)\<rparr>]\<rparr>"
proof -
  from assms(1,2) have b: "find_battery None (parents (resolve fs hwmon)) = Some battery"
    by (simp add: find_battery_last)
  from assms(5-9) have v: "adc_value fs iio ''in_temp'' = Inr (PyFloat (Finite False 25))"
    by (simp add: adc_value_def float_one_tenth times_one_tenth del: py_mul.simps)
  from b assms(3,4) v show ?thesis
    by (simp add: Axp20Battery_extend_def)
qed

theorem C8_battery_temperature_witness:
  "Axp20Battery_extend pine_fs hwmon1 battery_sensor =
     Inr \<lparr>cls = Axp20BatteryClass, name = ''axp20x_battery'',
          values = [\<lparr>label = None, kind = TEMPERATURE, val = PyFloat (Finite False 25)\<rparr>]\<rparr>
   \<and> float_repr (Finite False 25) = ''25.0''"
proof -
  let ?iio = "child (child pmic ''axp813-adc'') ''iio:device0''"
  have h1: "filter (\<lambda>b. path_name b = POWER_SUPPLY) (parents (resolve pine_fs hwmon1)) \<noteq> []"
    by code_simp
  have h2: "child pmic ''axp20x-battery-power-supply''
            = last (filter (\<lambda>b. path_name b = POWER_SUPPLY) (parents (resolve pine_fs hwmon1)))"
    by code_simp
  have h3: "path_name (resolve pine_fs (child (parent (child pmic ''axp20x-battery-power-supply'')) ''driver'')) = DRIVER"
    by code_simp
  have h4: "glob pine_fs (child (parent (child pmic ''axp20x-battery-power-supply'')) ADC) ''iio:device*''
            = ?iio # []"
    by code_simp
  have h5: "read_text pine_fs (child ?iio ''in_temp_raw'') = Inr ''250\<newline>''"
    by code_simp
  have h6: "py_int (py_strip ''250\<newline>'') = Inr 250"
    by code_simp
  have h7: "read_text pine_fs (child ?iio ''in_temp_offset'') = Inl FileNotFoundError"
    by code_simp
  have h8: "read_text pine_fs (child ?iio ''in_temp_scale'') = Inr ''0.1\<newline>''"
    by code_simp
  have h9: "py_float (py_strip ''0.1\<newline>'') = py_float ''0.1''"
    by code_simp
  have r: "float_repr (Finite False 25) = ''25.0''"
    by code_simp
  from C8_battery_temperature [OF h1 h2 h3 h4 h5 h6 h7 h8 h9, of battery_sensor] r
  show ?thesis
    by (simp add: battery_sensor_def)
qed

text \<open>The claim as stated fails: with an \<open>in_temp_offset\<close> of 10 beside the same raw and
  scale files the appended value is 26.0.\<close>

theorem C8_counterexample:
  "last (filter (\<lambda>b. path_name b = POWER_SUPPLY) (parents (resolve pine_offset_fs hwmon1)))
     = child pmic ''axp20x-battery-power-supply''
   \<and> path_name (resolve pine_offset_fs (child pmic ''driver'')) = ''axp20x-rsb''
   \<and> glob pine_offset_fs (child pmic ''axp813-adc'') ''iio:device*''
       = [child (child pmic ''axp813-adc'') ''iio:device0'']
   \<and> bind (read_text pine_offset_fs (child (child (child pmic ''axp813-adc'') ''iio:device0'') ''in_temp_raw''))
        (\<lambda>t. py_int (py_strip t)) = Inr 250
   \<and> bind (read_text pine_offset_fs (child (child (child pmic ''axp813-adc'') ''iio:device0'') ''in_temp_scale''))
        (\<lambda>t. py_float (py_strip t)) = py_float ''0.1''
   \<and> Axp20Battery_extend pine_offset_fs hwmon1 battery_sensor =
       Inr \<lparr>cls = Axp20BatteryClass, name = ''axp20x_battery'',
            values = [\<lparr>label = None, kind = TEMPERATURE, val = PyFloat (Finite False 26)\<rparr>]\<rparr>
   \<and> Sensor_parse SPECIAL pine_offset_fs hwmon1 =
       Inr \<lparr>cls = Axp20BatteryClass, name = ''axp20x_battery'',
            values = [\<lparr>label = None, kind = TEMPERATURE, val = PyFloat (Finite False 26)\<rparr>]\<rparr>
   \<and> float_repr (Finite False 26) = ''26.0''"
  by code_simp

subsection \<open>Text of the collection and the terminator\<close>

lemma join_newline:
  "join [c] (b # bs) = b @ concat (map (\<lambda>x. c # x) bs)"
  by (induction bs arbitrary: b) simp_all

text \<open>
  Claim C9, as amended. For every list of sensors the text of the collection is the
  text blocks of the sensors with a single line feed between consecutive blocks (the
  empty text for no sensor), so the next block starts on the next line. In the
  human-readable mode the \<open>sensors\<close> command prints this text, an empty line and the
  terminator \<open>=^.^=\<close>, whatever the collection; in JSON mode it writes the structured
  form and a line end, and never the terminator.
\<close>

theorem C9_hwmon_text_and_terminator:
  "Hwmon_str ss =
     bind (map_result Sensor_str ss) (\<lambda>blocks. Inr
       (case blocks of [] \<Rightarrow> [] | b # bs \<Rightarrow> b @ concat (map (\<lambda>x. CHR 0x0A # x) bs)))
   \<and> sensors special fs False =
       bind (Hwmon_parse special fs) (\<lambda>data.
       bind (Hwmon_str data) (\<lambda>out. Inr [Print out, Print [], Print ''=^.^='']))
   \<and> sensors special fs True =
       bind (Hwmon_parse special fs) (\<lambda>data. Inr [JsonDump (Hwmon_json data), Print []])
   \<and> (\<forall>evs. sensors special fs False = Inr evs \<longrightarrow>
         (\<exists>out. evs = [Print out, Print [], Print ''=^.^='']))
   \<and> (\<forall>evs. sensors special fs True = Inr evs \<longrightarrow> Print ''=^.^='' \<notin> set evs)"
proof (intro conjI allI impI)
  show "Hwmon_str ss =
     bind (map_result Sensor_str ss) (\<lambda>blocks. Inr
       (case blocks of [] \<Rightarrow> [] | b # bs \<Rightarrow> b @ concat (map (\<lambda>x. CHR 0x0A # x) bs)))"
  proof (cases "map_result Sensor_str ss")
    case (Inl e)
    then show ?thesis by (simp add: Hwmon_str_def)
  next
    case (Inr blocks)
    then show ?thesis
      by (cases blocks) (simp_all add: Hwmon_str_def join_newline)
  qed
next
  show "sensors special fs False =
       bind (Hwmon_parse special fs) (\<lambda>data.
       bind (Hwmon_str data) (\<lambda>out. Inr [Print out, Print [], Print ''=^.^='']))"
    by (simp add: sensors_def)
next
  show "sensors special fs True =
       bind (Hwmon_parse special fs) (\<lambda>data. Inr [JsonDump (Hwmon_json data), Print []])"
    by (simp add: sensors_def)
next
  fix evs
  assume "sensors special fs False = Inr evs"
  then show "\<exists>out. evs = [Print out, Print [], Print ''=^.^='']"
    by (auto simp: sensors_def bind_def split: sum.splits)
next
  fix evs
  assume "sensors special fs True = Inr evs"
  then have "\<exists>data. evs = [JsonDump (Hwmon_json data), Print []]"
    by (auto simp: sensors_def bind_def split: sum.splits)
  then show "Print ''=^.^='' \<notin> set evs"
    by auto
qed

text \<open>Two fan controllers, and a system without any sensor.\<close>

theorem C9_hwmon_text_and_terminator_witness:
  "Hwmon_parse SPECIAL fans_fs = Inr fan_sensors
   \<and> map_result Sensor_str fan_sensors = Inr [''Sensor fan_a:\<newline>  fan: 1200 '', ''Sensor fan_b:\<newline>  fan: 900 '']
   \<and> Hwmon_str fan_sensors = Inr ''Sensor fan_a:\<newline>  fan: 1200 \<newline>Sensor fan_b:\<newline>  fan: 900 ''
   \<and> sensors SPECIAL fans_fs False =
       Inr [Print ''Sensor fan_a:\<newline>  fan: 1200 \<newline>Sensor fan_b:\<newline>  fan: 900 '', Print [], Print ''=^.^='']
   \<and> sensors SPECIAL fans_fs True = Inr [JsonDump (Hwmon_json fan_sensors), Print []]
   \<and> Print ''=^.^='' \<notin> set [JsonDump (Hwmon_json fan_sensors), Print []]
   \<and> Hwmon_parse SPECIAL no_sensors_fs = Inr []
   \<and> sensors SPECIAL no_sensors_fs False = Inr [Print [], Print [], Print ''=^.^='']
   \<and> sensors SPECIAL no_sensors_fs True = Inr [JsonDump (JList []), Print []]"
proof -
  have h1: "Hwmon_parse SPECIAL fans_fs = Inr fan_sensors"
    by code_simp
  have h2: "map_result Sensor_str fan_sensors
            = Inr [''Sensor fan_a:\<newline>  fan: 1200 '', ''Sensor fan_b:\<newline>  fan: 900 '']"
    by code_simp
  have h3: "Hwmon_parse SPECIAL no_sensors_fs = Inr []"
    by code_simp
  note C = C9_hwmon_text_and_terminator [of fan_sensors SPECIAL fans_fs]
  note E = C9_hwmon_text_and_terminator [of "[]" SPECIAL no_sensors_fs]
  from C h2 have s: "Hwmon_str fan_sensors
      = Inr ''Sensor fan_a:\<newline>  fan: 1200 \<newline>Sensor fan_b:\<newline>  fan: 900 ''"
    by simp
  from C h1 s have f: "sensors SPECIAL fans_fs False =
       Inr [Print ''Sensor fan_a:\<newline>  fan: 1200 \<newline>Sensor fan_b:\<newline>  fan: 900 '', Print [], Print ''=^.^='']"
    by simp
  from C h1 have j: "sensors SPECIAL fans_fs True = Inr [JsonDump (Hwmon_json fan_sensors), Print []]"
    by simp
  from C j have n: "Print ''=^.^='' \<notin> set [JsonDump (Hwmon_json fan_sensors), Print []]"
    by blast
  from E have e0: "Hwmon_str [] = Inr []"
    by simp
  from E h3 e0 have ef: "sensors SPECIAL no_sensors_fs False = Inr [Print [], Print [], Print ''=^.^='']"
    by simp
  from E h3 have ej: "sensors SPECIAL no_sensors_fs True = Inr [JsonDump (JList []), Print []]"
    by (simp add: Hwmon_json_def)
  from h1 h2 s f j n h3 ef ej show ?thesis
    by blast
qed

text \<open>The claim as stated fails: between the blocks of two sensors there is one line
  feed and no empty line.\<close>

theorem C9_counterexample:
  "Sensor_str (fan_sensors ! 0) = Inr ''Sensor fan_a:\<newline>  fan: 1200 ''
   \<and> Sensor_str (fan_sensors ! 1) = Inr ''Sensor fan_b:\<newline>  fan: 900 ''
   \<and> Hwmon_str fan_sensors = Inr ''Sensor fan_a:\<newline>  fan: 1200 \<newline>Sensor fan_b:\<newline>  fan: 900 ''
   \<and> Hwmon_str fan_sensors \<noteq> Inr (''Sensor fan_a:\<newline>  fan: 1200 '' @ ''\<newline>\<newline>'' @ ''Sensor fan_b:\<newline>  fan: 900 '')"
  by code_simp

subsection \<open>Structured form of a sensor value\<close>

text \<open>
  Claim C10. The structured record of a sensor value holds the stored number under
  \<open>value\<close>, not divided by 1000, and the unit of the kind under \<open>unit\<close> as it is
  declared, milli prefix included (\<open>mV\<close>, \<open>m\<degree>C\<close>, \<open>mA\<close>); there is no \<open>unit\<close> key when
  the kind has no unit, and no \<open>label\<close> key when the label is \<open>None\<close> or the empty
  string.
\<close>

theorem C10_json_record:
  "map_of (items (SensorValue_json sv)) ''type'' = Some (JStr (lower (kind_name (kind sv))))
   \<and> map_of (items (SensorValue_json sv)) ''value'' = Some (JNum (val sv))
   \<and> map_of (items (SensorValue_json sv)) ''unit'' = map_option JStr (unit (kind sv))
   \<and> map_of (items (SensorValue_json sv)) ''label'' =
       (if label sv = None \<or> label sv = Some [] then None else map_option JStr (label sv))
   \<and> unit VOLTAGE = Some ''mV''
   \<and> unit TEMPERATURE = Some [CHR ''m'', CHR 0xC2, CHR 0xB0, CHR ''C'']
   \<and> unit CURRENT = Some ''mA''"
  by (cases "kind sv"; cases "label sv") (simp_all add: SensorValue_json_def)

text \<open>A temperature of 45000 millidegrees keeps its number and its unit in the
  structured form, while its text reads 45.0.\<close>

theorem C10_json_record_witness:
  "map_of (items (SensorValue_json \<lparr>label = Some [], kind = TEMPERATURE, val = PyInt 45000\<rparr>)) ''value''
     = Some (JNum (PyInt 45000))
   \<and> map_of (items (SensorValue_json \<lparr>label = Some [], kind = TEMPERATURE, val = PyInt 45000\<rparr>)) ''unit''
     = Some (JStr [CHR ''m'', CHR 0xC2, CHR 0xB0, CHR ''C''])
   \<and> map_of (items (SensorValue_json \<lparr>label = Some [], kind = TEMPERATURE, val = PyInt 45000\<rparr>)) ''label''
     = None"
  using C10_json_record [of "\<lparr>label = Some [], kind = TEMPERATURE, val = PyInt 45000\<rparr>"]
  by simp

end
